theory Spec2Isabelle
  imports Main
begin

section \<open>The serve command of the higuchi proxy (cmd/serve.go)\<close>

text \<open>
  The file cmd/serve.go holds the function \<open>runServe\<close>, the start-up glue of the proxy,
  in two versions: an older one (lines 34-117) and a newer one (lines 151-244). The
  packages it calls (config, hasher, auth, filter, dispatcher, worker, pool, server) are
  not part of the sources. Their constructors are modelled as datatype constructors that
  record the call and its arguments; their fallible operations are taken from an
  environment record, so that every outcome the callee can report is an input of the
  model.
\<close>

subsection \<open>Values stored in the credential table\<close>

text \<open>
  The credential table is a Go \<open>map[string]interface{}\<close>. A value of the empty interface
  carries a dynamic type; the type switch of \<open>authCompare\<close> tells three cases apart: a
  \<open>string\<close>, a \<open>hasher.Argon2Digest\<close> (type parameter \<open>'d\<close>, the hasher package is not in
  the sources), and anything else (the nil interface, or a value of another dynamic
  type, named here by its type).
\<close>

datatype 'd iface =
    IString string
  | IArgon2Digest 'd
  | INil
  | IOther string

text \<open>
  \<open>authCompare\<close>, lines 164-172. The method \<open>Compare\<close> of \<open>hasher.Argon2Digest\<close> is a
  parameter: it maps a digest and a password to a Go \<open>int\<close>.
\<close>

definition authCompare :: "('d \<Rightarrow> string \<Rightarrow> int) \<Rightarrow> string \<Rightarrow> 'd iface \<Rightarrow> bool" where
  "authCompare Compare password i =
     (case i of
        IString v \<Rightarrow> password = v
      | IArgon2Digest v \<Rightarrow> Compare v password = 0
      | _ \<Rightarrow> False)"

subsection \<open>The configuration\<close>

text \<open>
  The value returned by \<open>config.ReadConfig\<close>, with the fields \<open>runServe\<close> reads, each
  named by its path (\<open>cfg.Filters.Auth.Enabled\<close> is \<open>Filters_Auth_Enabled cfg\<close>).
  \<open>Logger_Mode\<close> is read by the older version only. Go's \<open>int\<close> is modelled as \<open>int\<close>:
  no arithmetic is done on the values.
\<close>

record config =
  Logger_Mode :: string
  Filters_Auth_Enabled :: bool
  Filters_Auth_PasswordsFile :: string
  Filters_Certbot_Enabled :: bool
  Filters_Certbot_Hostname :: string
  Filters_Certbot_Webroot :: string
  Filters_Certbot_ChallengePath :: string
  Filters_Forwarded_Enabled :: bool
  Filters_Healthcheck_Enabled :: bool
  Filters_Healthcheck_Method :: string
  Filters_Healthcheck_Path :: string
  Worker_BufferSize :: int
  Server_Listeners :: "string list"

text \<open>
  Modelled from the spec: the worker-pool capacity of the configuration. The config
  package is not in the sources and \<open>runServe\<close> reads no such field; the specification
  (section 6, "Config consumed") lists a "worker-pool capacity" among the configured
  values. It extends the record above, so every function on a configuration below
  accepts a configuration that carries it and cannot depend on it.
\<close>

record config_with_capacity = config +
  Worker_PoolCapacity :: int

subsection \<open>Filters, workers and the pool\<close>

text \<open>\<open>filter.CertbotConfig\<close>, filled at lines 187-192; its zero value has empty strings.\<close>

record CertbotConfig =
  Hostname :: string
  Webroot :: string
  ChallengePath :: string

definition CertbotConfig_zero :: CertbotConfig where
  "CertbotConfig_zero = \<lparr>Hostname = [], Webroot = [], ChallengePath = []\<rparr>"

text \<open>
  The constructors of the packages dispatcher and filter, as \<open>runServe\<close> calls them.
  \<open>NewCertbotFilter2\<close> is the two-argument call of the older version (line 86).
  \<open>NewAuthFilter\<close> takes the credential table and the comparison closure.
\<close>

datatype dispatcher = NewTCPDispatcher int

datatype dispatch_filter = NewDispatchFilter dispatcher

datatype 'd http_filter =
    DefaultForwardedFilter
  | NewCertbotFilter CertbotConfig
  | NewCertbotFilter2 string string
  | NewAuthFilter "string \<rightharpoonup> 'd iface" "string \<Rightarrow> 'd iface \<Rightarrow> bool"
  | NewTunnelFilter int
  | NewForwardFilter dispatch_filter

datatype 'd filter_top =
    NewHealthCheckFilter string string
  | NewParseFilter "'d http_filter list"

text \<open>\<open>worker.New(num, filters...)\<close> and \<open>pool.NewPreallocatedPool(factory, size)\<close>.\<close>

datatype 'd worker = worker_New int "'d filter_top list"

datatype 'd pool = NewPreallocatedPool "int \<Rightarrow> 'd worker" int

fun worker_filters :: "'d worker \<Rightarrow> 'd filter_top list" where
  "worker_filters (worker_New num filters) = filters"

fun pool_factory :: "'d pool \<Rightarrow> int \<Rightarrow> 'd worker" where
  "pool_factory (NewPreallocatedPool factory n) = factory"

fun pool_size :: "'d pool \<Rightarrow> int" where
  "pool_size (NewPreallocatedPool factory n) = n"

text \<open>
  Modelled from the spec: the behaviour of the worker pool; the package internal/pool is
  not in the sources, only the call \<open>pool.NewPreallocatedPool(factory, 1024)\<close> is. The
  specification (sections 3 and 4.5) describes the pool as "a fixed-capacity array of
  Worker instances created once via a factory function indexed 0..N-1; each element is
  either idle or bound to exactly one in-flight Connection"; \<open>acquire\<close> "blocks the
  caller until an idle Worker exists, then marks it bound and returns it"; \<open>release\<close>
  "marks it idle again"; "Pool size is fixed at construction (no dynamic growth/shrink)".
  The state is the array of workers and, for each, whether it is bound. \<open>acquire\<close>
  yields \<open>None\<close> when no worker is idle: the caller stays blocked and the pool is as it
  was.
\<close>

record 'd pool_state =
  pool_workers :: "'d worker list"
  pool_bound :: "bool list"

fun pool_start :: "'d pool \<Rightarrow> 'd pool_state" where
  "pool_start (NewPreallocatedPool factory n) =
     \<lparr>pool_workers = map (\<lambda>i. factory (int i)) [0..<nat n],
      pool_bound = replicate (nat n) False\<rparr>"

definition capacity :: "'d pool_state \<Rightarrow> nat" where
  "capacity p = length (pool_workers p)"

definition acquire :: "'d pool_state \<Rightarrow> (nat \<times> 'd pool_state) option" where
  "acquire p =
     (case find (\<lambda>i. \<not> pool_bound p ! i) [0..<length (pool_bound p)] of
        None \<Rightarrow> None
      | Some i \<Rightarrow> Some (i, p\<lparr>pool_bound := (pool_bound p)[i := True]\<rparr>))"

definition release :: "nat \<Rightarrow> 'd pool_state \<Rightarrow> 'd pool_state" where
  "release i p = p\<lparr>pool_bound := (pool_bound p)[i := False]\<rparr>"

text \<open>The operations a server performs on its pool over time, and their effect.\<close>

datatype pool_op = Acquire | Release nat

fun pool_step :: "'d pool_state \<Rightarrow> pool_op \<Rightarrow> 'd pool_state" where
  "pool_step p Acquire = (case acquire p of None \<Rightarrow> p | Some (i, p') \<Rightarrow> p')"
| "pool_step p (Release i) = release i p"

fun pool_run :: "'d pool_state \<Rightarrow> pool_op list \<Rightarrow> 'd pool_state" where
  "pool_run p [] = p"
| "pool_run p (op # ops) = pool_run (pool_step p op) ops"

text \<open>The kind of a filter: which stage of the pipeline the constructor builds.\<close>

datatype http_kind = Forwarded | Certbot | Auth | Tunnel | Forward

datatype filter_kind = HealthCheck | Parse "http_kind list"

fun http_kind_of :: "'d http_filter \<Rightarrow> http_kind" where
  "http_kind_of DefaultForwardedFilter = Forwarded"
| "http_kind_of (NewCertbotFilter c) = Certbot"
| "http_kind_of (NewCertbotFilter2 h w) = Certbot"
| "http_kind_of (NewAuthFilter users cmp) = Auth"
| "http_kind_of (NewTunnelFilter n) = Tunnel"
| "http_kind_of (NewForwardFilter df) = Forward"

fun filter_kind_of :: "'d filter_top \<Rightarrow> filter_kind" where
  "filter_kind_of (NewHealthCheckFilter m p) = HealthCheck"
| "filter_kind_of (NewParseFilter hfs) = Parse (map http_kind_of hfs)"

text \<open>The nested chains of a worker: the argument of each of its Parse filters.\<close>

fun nested_chains :: "'d filter_top list \<Rightarrow> 'd http_filter list list" where
  "nested_chains [] = []"
| "nested_chains (NewHealthCheckFilter m p # fs) = nested_chains fs"
| "nested_chains (NewParseFilter hfs # fs) = hfs # nested_chains fs"

text \<open>The top-level stage of a filter, without the contents of a nested chain.\<close>

datatype top_kind = TopHealthCheck | TopParse

fun top_kind_of :: "'d filter_top \<Rightarrow> top_kind" where
  "top_kind_of (NewHealthCheckFilter m p) = TopHealthCheck"
| "top_kind_of (NewParseFilter hfs) = TopParse"

subsection \<open>The worker factory\<close>

text \<open>Lines 187-192: the Certbot parameters are copied only when the filter is enabled.\<close>

definition certbotConfig_of :: "'a config_scheme \<Rightarrow> CertbotConfig" where
  "certbotConfig_of cfg =
     (if Filters_Certbot_Enabled cfg
      then \<lparr>Hostname = Filters_Certbot_Hostname cfg,
            Webroot = Filters_Certbot_Webroot cfg,
            ChallengePath = Filters_Certbot_ChallengePath cfg\<rparr>
      else CertbotConfig_zero)"

text \<open>
  Lines 197-212: the nested chain \<open>hfs\<close>, built by appending. Each \<open>let\<close> rebinds \<open>hfs\<close>
  as the assignment \<open>hfs = append(hfs, ...)\<close> does.
\<close>

definition http_filters ::
  "'a config_scheme \<Rightarrow> (string \<rightharpoonup> 'd iface) \<Rightarrow> (string \<Rightarrow> 'd iface \<Rightarrow> bool) \<Rightarrow>
   CertbotConfig \<Rightarrow> 'd http_filter list" where
  "http_filters cfg users cmp certbotConfig =
     (let hfs = [];
          hfs = (if Filters_Forwarded_Enabled cfg then hfs @ [DefaultForwardedFilter] else hfs);
          hfs = (if Filters_Certbot_Enabled cfg then hfs @ [NewCertbotFilter certbotConfig] else hfs);
          hfs = (if Filters_Auth_Enabled cfg then hfs @ [NewAuthFilter users cmp] else hfs);
          df = NewDispatchFilter (NewTCPDispatcher (Worker_BufferSize cfg))
      in hfs @ [NewTunnelFilter (Worker_BufferSize cfg), NewForwardFilter df])"

text \<open>Lines 196-223: the closure handed to the pool, called with the worker's number.\<close>

definition worker_factory ::
  "'a config_scheme \<Rightarrow> (string \<rightharpoonup> 'd iface) \<Rightarrow> (string \<Rightarrow> 'd iface \<Rightarrow> bool) \<Rightarrow>
   CertbotConfig \<Rightarrow> int \<Rightarrow> 'd worker" where
  "worker_factory cfg users cmp certbotConfig num =
     (let hfs = http_filters cfg users cmp certbotConfig;
          filters = [];
          filters = (if Filters_Healthcheck_Enabled cfg
                     then filters @ [NewHealthCheckFilter (Filters_Healthcheck_Method cfg)
                                       (Filters_Healthcheck_Path cfg)]
                     else filters);
          filters = filters @ [NewParseFilter hfs]
      in worker_New num filters)"

text \<open>
  The older version, lines 83-98: no Forwarded and no HealthCheck filter, and the worker
  gets the Parse filter alone.
\<close>

definition worker_factory_old ::
  "'a config_scheme \<Rightarrow> (string \<rightharpoonup> 'd iface) \<Rightarrow> (string \<Rightarrow> 'd iface \<Rightarrow> bool) \<Rightarrow>
   int \<Rightarrow> 'd worker" where
  "worker_factory_old cfg users cmp num =
     (let hfs = [];
          hfs = (if Filters_Certbot_Enabled cfg
                 then hfs @ [NewCertbotFilter2 (Filters_Certbot_Hostname cfg)
                               (Filters_Certbot_Webroot cfg)]
                 else hfs);
          hfs = (if Filters_Auth_Enabled cfg then hfs @ [NewAuthFilter users cmp] else hfs);
          df = NewDispatchFilter (NewTCPDispatcher (Worker_BufferSize cfg));
          hfs = hfs @ [NewTunnelFilter (Worker_BufferSize cfg), NewForwardFilter df]
      in worker_New num [NewParseFilter hfs])"

subsection \<open>Errors, signals and the environment\<close>

text \<open>
  A Go \<open>error\<close> is modelled by its message. \<open>fmt.Errorf(prefix + "%v", err)\<close> builds a new
  error whose message is the prefix followed by the message of \<open>err\<close>.
\<close>

datatype error = Error string

fun Errorf :: "string \<Rightarrow> error \<Rightarrow> error" where
  "Errorf prefix (Error msg) = Error (prefix @ msg)"

text \<open>
  A signal sent to the process: the interrupt signal (\<open>os.Interrupt\<close>, SIGINT), SIGTERM,
  or another signal, given by its number and by what the Go runtime does with it when no
  channel is registered for it. \<open>OtherExits\<close> is a signal that ends the process, as
  SIGHUP (1), SIGQUIT (3) and SIGKILL (9) do; \<open>OtherIgnored\<close> is one after which the
  process goes on, as after SIGCHLD (17) and SIGWINCH (28), or after SIGHUP in a process
  that was started with SIGHUP ignored. The disposition is part of the input: it is the
  runtime's and the operating system's, not the program's. The interrupt signal and
  SIGTERM end the process too when no channel is registered for them.
\<close>

datatype os_signal = Interrupt | SIGTERM | OtherExits nat | OtherIgnored nat

fun default_exits :: "os_signal \<Rightarrow> bool" where
  "default_exits Interrupt = True"
| "default_exits SIGTERM = True"
| "default_exits (OtherExits n) = True"
| "default_exits (OtherIgnored n) = False"

text \<open>
  What a run does to the world outside, in order. \<open>EvListen network address ok\<close> is a
  call of \<open>s.Listen\<close> and whether it bound the listener; \<open>EvSignalNotify\<close> is the
  registration of the signal channel, \<open>EvSignalRecv\<close> the receive on it,
  \<open>EvProcessExit\<close> the end of the process on a signal no channel is registered for;
  \<open>EvLogInfo\<close> carries the message and the signal of the \<open>zap.String("signal", ...)\<close>
  field when there is one; \<open>EvLoggerSync\<close> is the deferred \<open>logger.Sync()\<close>.
\<close>

datatype event =
    EvReadConfig
  | EvLoggerCreate
  | EvPepper
  | EvReadPasswordsFile string
  | EvListen string string bool
  | EvLogInfo string "os_signal option"
  | EvSignalNotify "os_signal list"
  | EvSignalRecv os_signal
  | EvProcessExit os_signal
  | EvServerClose
  | EvLoggerSync

text \<open>
  The environment of a run: the answer of every operation that \<open>runServe\<close> calls in a
  package outside the sources or in the operating system.
  \<^item> \<open>ReadConfig\<close>: the result of \<open>config.ReadConfig()\<close>;
  \<^item> \<open>Pepper\<close>: the method \<open>cfg.Filters.Auth.Pepper()\<close>, on the configuration read;
  \<^item> \<open>Argon2Digest_Compare\<close>: the method \<open>Compare\<close> of \<open>hasher.Argon2Digest\<close>;
  \<^item> \<open>ReadPasswordsFile\<close>: \<open>aa.ReadPasswordsFile(path)\<close>, for the pepper the hasher
    was built with and the path; it yields a map from user names to stored values;
  \<^item> \<open>Listen\<close>: \<open>s.Listen(network, addr)\<close>, given the listeners the server has bound
    so far; \<open>None\<close> is the nil error;
  \<^item> \<open>Close\<close>: the result of \<open>s.Close()\<close>, given the listeners bound;
  \<^item> \<open>signals\<close>: the signals the process is sent once the channel is registered, in
    order of arrival, each with what the runtime does with it by default.
\<close>

record ('d, 'c) env =
  ReadConfig :: "error + 'c config_scheme"
  Pepper :: "'c config_scheme \<Rightarrow> error + string"
  Argon2Digest_Compare :: "'d \<Rightarrow> string \<Rightarrow> int"
  ReadPasswordsFile :: "string \<Rightarrow> string \<Rightarrow> error + (string \<rightharpoonup> 'd iface)"
  Listen :: "(string \<times> string) list \<Rightarrow> string \<Rightarrow> string \<Rightarrow> error option"
  Close :: "(string \<times> string) list \<Rightarrow> error option"
  signals :: "os_signal list"

text \<open>
  The server: the pool it was built with (\<open>server.New(server.Config{Logger, Pool})\<close>) and
  the listeners it has bound and accepts connections on, each a network and an address.
\<close>

record 'd server =
  srv_Pool :: "'d pool"
  srv_listeners :: "(string \<times> string) list"

definition server_New :: "'d pool \<Rightarrow> 'd server" where
  "server_New p = \<lparr>srv_Pool = p, srv_listeners = []\<rparr>"

text \<open>
  Modelled from the spec: the effect of \<open>Server.Close\<close> on the server; the package
  internal/server is not in the sources. The specification (section 4.6) says that
  "\<open>Close()\<close> stops accepting on all listeners": afterwards the server accepts on no
  listener. The pool is left as it is (in-flight workers finish). The error value that
  \<open>Close\<close> returns is the environment's.
\<close>

definition server_Close :: "'d server \<Rightarrow> 'd server" where
  "server_Close s = s\<lparr>srv_listeners := []\<rparr>"

text \<open>
  How a run ends: \<open>runServe\<close> returns an error value (\<open>None\<close> is nil), or it stays
  blocked on the signal channel and never returns, or the process is ended by a signal
  while it is blocked there, and \<open>runServe\<close> never returns either.
\<close>

datatype outcome = Returned "error option" | Blocked | Exited os_signal

record 'd run =
  trace :: "event list"
  outcome :: outcome
  server_of :: "'d server option"

subsection \<open>runServe, lines 151-244\<close>

text \<open>\<open>strings.HasPrefix\<close>, and the constants of lines 139-141.\<close>

definition HasPrefix :: "string \<Rightarrow> string \<Rightarrow> bool" where
  "HasPrefix s prefix = (length s \<ge> length prefix \<and> take (length prefix) s = prefix)"

definition unixAddressPrefix :: string where
  "unixAddressPrefix = ''unix:''"

definition unixAddressPrefixLength :: nat where
  "unixAddressPrefixLength = length unixAddressPrefix"

text \<open>
  Lines 173-185: the credential table. The \<open>range\<close> loop copies every entry of the map
  read from the file into \<open>users\<close>; on maps that is \<open>users ++ au\<close>, whatever the order of
  the iteration.
\<close>

definition load_users ::
  "('d, 'c) env \<Rightarrow> 'c config_scheme \<Rightarrow> string \<Rightarrow> event list \<times> (error + (string \<rightharpoonup> 'd iface))" where
  "load_users env cfg pepper =
     (let users = Map.empty in
      if Filters_Auth_Enabled cfg
      then (case ReadPasswordsFile env pepper (Filters_Auth_PasswordsFile cfg) of
              Inl err \<Rightarrow>
                ([EvReadPasswordsFile (Filters_Auth_PasswordsFile cfg)],
                 Inl (Errorf ''error while reading passwords file: '' err))
            | Inr au \<Rightarrow>
                ([EvReadPasswordsFile (Filters_Auth_PasswordsFile cfg)], Inr (users ++ au)))
      else ([], Inr users))"

text \<open>
  Lines 226-236: the loop over the configured listeners. It stops at the first address
  whose \<open>Listen\<close> fails and returns that error; the listeners bound before stay bound.
  The result is the events, the server, and the error if there was one.
\<close>

fun listen_loop ::
  "('d, 'c) env \<Rightarrow> 'd server \<Rightarrow> string list \<Rightarrow> event list \<times> 'd server \<times> error option" where
  "listen_loop env s [] = ([], s, None)"
| "listen_loop env s (addr # addrs) =
     (let (network, addr') =
            (if HasPrefix addr unixAddressPrefix
             then (''unix'', drop unixAddressPrefixLength addr)
             else (''tcp'', addr))
      in case Listen env (srv_listeners s) network addr' of
           Some err \<Rightarrow> ([EvListen network addr' False], s, Some err)
         | None \<Rightarrow>
             (let s' = s\<lparr>srv_listeners := srv_listeners s @ [(network, addr')]\<rparr>;
                  (tr, s'', r) = listen_loop env s' addrs
              in (EvListen network addr' True # EvLogInfo (''Higuchi listening at '' @ addr') None # tr,
                  s'', r)))"

text \<open>
  Lines 152-236: everything before the signal channel is made. The result is the events,
  the server once it has been built, and the error the function returns with, if any.
  The deferred \<open>logger.Sync()\<close> runs on every return after the logger was created.
\<close>

definition startup :: "('d, 'c) env \<Rightarrow> event list \<times> 'd server option \<times> error option" where
  "startup env =
     (case ReadConfig env of
        Inl err \<Rightarrow>
          ([EvReadConfig], None, Some (Errorf ''error while reading config: '' err))
      | Inr cfg \<Rightarrow>
          (case Pepper env cfg of
             Inl err \<Rightarrow>
               ([EvReadConfig, EvLoggerCreate, EvPepper, EvLoggerSync], None,
                Some (Errorf ''error while decoding pepper: '' err))
           | Inr pepper \<Rightarrow>
               (case load_users env cfg pepper of
                  (tr_u, Inl err) \<Rightarrow>
                    ([EvReadConfig, EvLoggerCreate, EvPepper] @ tr_u @ [EvLoggerSync], None, Some err)
                | (tr_u, Inr users) \<Rightarrow>
                    (let certbotConfig = certbotConfig_of cfg;
                         s = server_New
                               (NewPreallocatedPool
                                  (worker_factory cfg users (authCompare (Argon2Digest_Compare env)) certbotConfig)
                                  1024)
                     in case listen_loop env s (Server_Listeners cfg) of
                          (tr_l, s', Some err) \<Rightarrow>
                            ([EvReadConfig, EvLoggerCreate, EvPepper] @ tr_u @ tr_l @ [EvLoggerSync],
                             Some s', Some err)
                        | (tr_l, s', None) \<Rightarrow>
                            ([EvReadConfig, EvLoggerCreate, EvPepper] @ tr_u @ tr_l, Some s', None)))))"

text \<open>
  Lines 238-243. \<open>signal.Notify(sigCh, os.Interrupt, syscall.SIGTERM)\<close> relays only the
  two signals named to the channel; every other signal keeps its default action. The
  receive \<open>sig := <-sigCh\<close> blocks: it yields the first relayed signal, unless a signal
  that ends the process arrives before, and it never returns when neither happens.
\<close>

datatype wait_result = Received os_signal | ProcessExit os_signal | NoSignal

fun wait_signal :: "os_signal list \<Rightarrow> os_signal list \<Rightarrow> wait_result" where
  "wait_signal notify [] = NoSignal"
| "wait_signal notify (sig # sigs) =
     (if sig \<in> set notify then Received sig
      else if default_exits sig then ProcessExit sig
      else wait_signal notify sigs)"

text \<open>
  The result is the events, how the run ends, and the server as it is then: closed after
  \<open>s.Close()\<close>, untouched otherwise.
\<close>

definition wait_and_close ::
  "('d, 'c) env \<Rightarrow> 'd server \<Rightarrow> event list \<times> outcome \<times> 'd server" where
  "wait_and_close env s =
     (let notify = [Interrupt, SIGTERM] in
      case wait_signal notify (signals env) of
        NoSignal \<Rightarrow> ([EvSignalNotify notify], Blocked, s)
      | ProcessExit sig \<Rightarrow> ([EvSignalNotify notify, EvProcessExit sig], Exited sig, s)
      | Received sig \<Rightarrow>
          ([EvSignalNotify notify, EvSignalRecv sig,
            EvLogInfo ''Received stop signal'' (Some sig), EvServerClose, EvLoggerSync],
           Returned (Close env (srv_listeners s)), server_Close s))"

text \<open>
  The whole function. A start-up that ends without an error has built the server, so the
  second case below is never taken; it makes the case analysis complete.
\<close>

definition runServe :: "('d, 'c) env \<Rightarrow> 'd run" where
  "runServe env =
     (case startup env of
        (tr, so, Some err) \<Rightarrow> \<lparr>trace = tr, outcome = Returned (Some err), server_of = so\<rparr>
      | (tr, None, None) \<Rightarrow> \<lparr>trace = tr, outcome = Returned None, server_of = None\<rparr>
      | (tr, Some s, None) \<Rightarrow>
          (let (tr_w, out, s') = wait_and_close env s
           in \<lparr>trace = tr @ tr_w, outcome = out, server_of = Some s'\<rparr>))"

text \<open>The calls of \<open>Listen\<close> in a trace, in order: network, address, and whether it bound.\<close>

fun listen_calls :: "event list \<Rightarrow> (string \<times> string \<times> bool) list" where
  "listen_calls [] = []"
| "listen_calls (EvListen network addr ok # es) = (network, addr, ok) # listen_calls es"
| "listen_calls (e # es) = listen_calls es"

text \<open>
  What the specification says of a listener address: one that starts with \<open>unix:\<close> names
  a local socket, the path being what follows the prefix; any other is a TCP address,
  taken as it is. The lemmas \<open>HasPrefix_unix\<close> and \<open>listen_loop_Cons\<close> relate it to the
  code of the loop.
\<close>

definition listen_target :: "string \<Rightarrow> string \<times> string" where
  "listen_target addr =
     (if take 5 addr = ''unix:'' then (''unix'', drop 5 addr) else (''tcp'', addr))"

subsection \<open>Concrete configurations and environments\<close>

text \<open>A configuration with every optional filter disabled, a TCP and a local listener.\<close>

definition example_config :: config where
  "example_config =
     \<lparr>Logger_Mode = ''production'',
      Filters_Auth_Enabled = False,
      Filters_Auth_PasswordsFile = ''passwords'',
      Filters_Certbot_Enabled = False,
      Filters_Certbot_Hostname = ''example.org'',
      Filters_Certbot_Webroot = ''/var/www'',
      Filters_Certbot_ChallengePath = ''/.well-known/acme-challenge'',
      Filters_Forwarded_Enabled = False,
      Filters_Healthcheck_Enabled = False,
      Filters_Healthcheck_Method = ''GET'',
      Filters_Healthcheck_Path = ''/healthz'',
      Worker_BufferSize = 4096,
      Server_Listeners = [''127.0.0.1:8080'', ''unix:/run/higuchi.sock'']\<rparr>"

text \<open>
  An environment in which everything succeeds; digests are numbers, and the process is
  sent a window-size signal, which it ignores, then SIGTERM, then an interrupt.
\<close>

definition example_env :: "(nat, unit) env" where
  "example_env =
     \<lparr>ReadConfig = Inr example_config,
      Pepper = (\<lambda>cfg. Inr ''pepper''),
      Argon2Digest_Compare = (\<lambda>d p. if d = length p then 0 else 1),
      ReadPasswordsFile = (\<lambda>pepper path. Inr [''alice'' \<mapsto> IString ''secret'']),
      Listen = (\<lambda>bound network addr. None),
      Close = (\<lambda>bound. None),
      signals = [OtherIgnored 28, SIGTERM, Interrupt]\<rparr>"

text \<open>The configuration file cannot be read.\<close>

definition config_failure_env :: "(nat, unit) env" where
  "config_failure_env =
     example_env\<lparr>ReadConfig := Inl (Error ''open higuchi.yaml: no such file or directory'')\<rparr>"

text \<open>The pepper does not decode, with the Auth filter disabled.\<close>

definition pepper_failure_env :: "(nat, unit) env" where
  "pepper_failure_env =
     example_env\<lparr>Pepper := (\<lambda>cfg. Inl (Error ''illegal base64 data at input byte 0''))\<rparr>"

text \<open>The Auth filter is enabled and the passwords file cannot be read.\<close>

definition passwords_failure_env :: "(nat, unit) env" where
  "passwords_failure_env =
     example_env
       \<lparr>ReadConfig := Inr (example_config\<lparr>Filters_Auth_Enabled := True\<rparr>),
        ReadPasswordsFile :=
          (\<lambda>pepper path. Inl (Error ''open passwords: no such file or directory''))\<rparr>"

text \<open>The Auth filter is disabled and the passwords file cannot be read.\<close>

definition no_passwords_env :: "(nat, unit) env" where
  "no_passwords_env =
     example_env
       \<lparr>ReadPasswordsFile :=
          (\<lambda>pepper path. Inl (Error ''open passwords: no such file or directory''))\<rparr>"

text \<open>The local socket, the second listener, cannot be bound.\<close>

definition bind_failure_env :: "(nat, unit) env" where
  "bind_failure_env =
     example_env
       \<lparr>Listen := (\<lambda>bound network addr.
          if network = ''unix'' then Some (Error ''listen unix: permission denied'') else None)\<rparr>"

text \<open>No interrupt or termination signal ever arrives.\<close>

definition no_signal_env :: "(nat, unit) env" where
  "no_signal_env = example_env\<lparr>signals := [OtherIgnored 17, OtherIgnored 28]\<rparr>"

text \<open>A hangup signal arrives before SIGTERM: no channel is registered for it.\<close>

definition hangup_env :: "(nat, unit) env" where
  "hangup_env = example_env\<lparr>signals := [OtherIgnored 28, OtherExits 1, SIGTERM]\<rparr>"

text \<open>A configuration that asks for a pool of two workers, and its environment.\<close>

definition capacity_config :: config_with_capacity where
  "capacity_config =
     \<lparr>Logger_Mode = ''production'',
      Filters_Auth_Enabled = False,
      Filters_Auth_PasswordsFile = ''passwords'',
      Filters_Certbot_Enabled = False,
      Filters_Certbot_Hostname = ''example.org'',
      Filters_Certbot_Webroot = ''/var/www'',
      Filters_Certbot_ChallengePath = ''/.well-known/acme-challenge'',
      Filters_Forwarded_Enabled = False,
      Filters_Healthcheck_Enabled = False,
      Filters_Healthcheck_Method = ''GET'',
      Filters_Healthcheck_Path = ''/healthz'',
      Worker_BufferSize = 4096,
      Server_Listeners = [''127.0.0.1:8080''],
      Worker_PoolCapacity = 2\<rparr>"

definition capacity_env :: "(nat, unit config_with_capacity_ext) env" where
  "capacity_env =
     \<lparr>ReadConfig = Inr capacity_config,
      Pepper = (\<lambda>cfg. Inr ''pepper''),
      Argon2Digest_Compare = (\<lambda>d p. if d = length p then 0 else 1),
      ReadPasswordsFile = (\<lambda>pepper path. Inr Map.empty),
      Listen = (\<lambda>bound network addr. None),
      Close = (\<lambda>bound. None),
      signals = [SIGTERM]\<rparr>"

section \<open>Theorems\<close>

subsection \<open>The nested chain and the top-level chain in closed form\<close>

lemma http_filters_eq:
  "http_filters cfg users cmp cc =
     (if Filters_Forwarded_Enabled cfg then [DefaultForwardedFilter] else []) @
     (if Filters_Certbot_Enabled cfg then [NewCertbotFilter cc] else []) @
     (if Filters_Auth_Enabled cfg then [NewAuthFilter users cmp] else []) @
     [NewTunnelFilter (Worker_BufferSize cfg),
      NewForwardFilter (NewDispatchFilter (NewTCPDispatcher (Worker_BufferSize cfg)))]"
  by (simp add: http_filters_def)

lemma worker_filters_factory:
  "worker_filters (worker_factory cfg users cmp cc num) =
     (if Filters_Healthcheck_Enabled cfg
      then [NewHealthCheckFilter (Filters_Healthcheck_Method cfg) (Filters_Healthcheck_Path cfg)]
      else []) @ [NewParseFilter (http_filters cfg users cmp cc)]"
  by (simp add: worker_factory_def)

subsection \<open>The listener loop\<close>

text \<open>
  The test and the slice of lines 228-230 compute \<open>listen_target\<close>; one round of the loop
  is restated with it, and the facts on the loop are proved by induction on the list of
  addresses: the pool of the server is never touched, the calls made are those of the
  addresses in order, and a failure ends the loop at its address.
\<close>

lemma unixAddressPrefixLength_eq: "unixAddressPrefixLength = 5"
  by (simp add: unixAddressPrefixLength_def unixAddressPrefix_def)

lemma HasPrefix_unix: "HasPrefix addr unixAddressPrefix \<longleftrightarrow> take 5 addr = ''unix:''"
proof -
  have len: "length ''unix:'' = (5::nat)" by simp
  have "take 5 addr = ''unix:'' \<Longrightarrow> 5 \<le> length addr"
  proof -
    assume "take 5 addr = ''unix:''"
    then have "length (take 5 addr) = 5" using len by metis
    then show ?thesis by simp
  qed
  then show ?thesis
    unfolding HasPrefix_def unixAddressPrefix_def len by blast
qed

lemma listen_loop_Cons:
  "listen_loop env s (addr # addrs) =
     (case Listen env (srv_listeners s) (fst (listen_target addr)) (snd (listen_target addr)) of
        Some err \<Rightarrow> ([EvListen (fst (listen_target addr)) (snd (listen_target addr)) False], s, Some err)
      | None \<Rightarrow>
          (case listen_loop env (s\<lparr>srv_listeners := srv_listeners s @ [listen_target addr]\<rparr>) addrs of
             (tr, s'', r) \<Rightarrow>
               (EvListen (fst (listen_target addr)) (snd (listen_target addr)) True #
                EvLogInfo (''Higuchi listening at '' @ snd (listen_target addr)) None # tr, s'', r)))"
  by (simp add: listen_target_def HasPrefix_unix unixAddressPrefixLength_eq
        split: option.splits)

declare listen_loop.simps(2) [simp del]

lemma listen_loop_pool:
  "listen_loop env s addrs = (tr, s', r) \<Longrightarrow> srv_Pool s' = srv_Pool s"
proof (induction addrs arbitrary: s tr s' r)
  case Nil
  then show ?case by simp
next
  case (Cons addr addrs)
  show ?case
  proof (cases "Listen env (srv_listeners s) (fst (listen_target addr)) (snd (listen_target addr))")
    case (Some err)
    with Cons.prems show ?thesis by (simp add: listen_loop_Cons)
  next
    case None
    obtain tr0 s0 r0 where
      rec: "listen_loop env (s\<lparr>srv_listeners := srv_listeners s @ [listen_target addr]\<rparr>) addrs = (tr0, s0, r0)"
      by (metis prod_cases3)
    from Cons.prems None rec have "s' = s0" by (simp add: listen_loop_Cons)
    with Cons.IH [OF rec] show ?thesis by simp
  qed
qed

lemma listen_loop_ok:
  "listen_loop env s addrs = (tr, s', None) \<Longrightarrow>
     listen_calls tr = map (\<lambda>a. (fst (listen_target a), snd (listen_target a), True)) addrs
     \<and> srv_listeners s' = srv_listeners s @ map listen_target addrs"
proof (induction addrs arbitrary: s tr s')
  case Nil
  then show ?case by simp
next
  case (Cons addr addrs)
  show ?case
  proof (cases "Listen env (srv_listeners s) (fst (listen_target addr)) (snd (listen_target addr))")
    case (Some err)
    with Cons.prems show ?thesis by (simp add: listen_loop_Cons)
  next
    case None
    obtain tr0 s0 r0 where
      rec: "listen_loop env (s\<lparr>srv_listeners := srv_listeners s @ [listen_target addr]\<rparr>) addrs = (tr0, s0, r0)"
      by (metis prod_cases3)
    from Cons.prems None rec have eqs: "s' = s0" "r0 = None"
      "tr = EvListen (fst (listen_target addr)) (snd (listen_target addr)) True #
            EvLogInfo (''Higuchi listening at '' @ snd (listen_target addr)) None # tr0"
      by (simp_all add: listen_loop_Cons)
    from rec eqs have rec2:
      "listen_loop env (s\<lparr>srv_listeners := srv_listeners s @ [listen_target addr]\<rparr>) addrs = (tr0, s0, None)"
      by simp
    from Cons.IH [OF rec2] eqs show ?thesis by simp
  qed
qed

lemma listen_loop_err:
  "listen_loop env s addrs = (tr, s', Some err) \<Longrightarrow>
     \<exists>k<length addrs.
       listen_calls tr =
         map (\<lambda>a. (fst (listen_target a), snd (listen_target a), True)) (take k addrs) @
         [(fst (listen_target (addrs ! k)), snd (listen_target (addrs ! k)), False)]
       \<and> srv_listeners s' = srv_listeners s @ map listen_target (take k addrs)
       \<and> Listen env (srv_listeners s') (fst (listen_target (addrs ! k))) (snd (listen_target (addrs ! k))) = Some err"
proof (induction addrs arbitrary: s tr s')
  case Nil
  then show ?case by simp
next
  case (Cons addr addrs)
  show ?case
  proof (cases "Listen env (srv_listeners s) (fst (listen_target addr)) (snd (listen_target addr))")
    case (Some e)
    with Cons.prems have "tr = [EvListen (fst (listen_target addr)) (snd (listen_target addr)) False]"
      "s' = s" "e = err"
      by (simp_all add: listen_loop_Cons)
    with Some show ?thesis by (intro exI [of _ 0]) simp
  next
    case None
    obtain tr0 s0 r0 where
      rec: "listen_loop env (s\<lparr>srv_listeners := srv_listeners s @ [listen_target addr]\<rparr>) addrs = (tr0, s0, r0)"
      by (metis prod_cases3)
    from Cons.prems None rec have eqs: "s' = s0" "r0 = Some err"
      "tr = EvListen (fst (listen_target addr)) (snd (listen_target addr)) True #
            EvLogInfo (''Higuchi listening at '' @ snd (listen_target addr)) None # tr0"
      by (simp_all add: listen_loop_Cons)
    from rec eqs have rec2:
      "listen_loop env (s\<lparr>srv_listeners := srv_listeners s @ [listen_target addr]\<rparr>) addrs = (tr0, s0, Some err)"
      by simp
    from Cons.IH [OF rec2] obtain k where k: "k < length addrs"
      "listen_calls tr0 =
         map (\<lambda>a. (fst (listen_target a), snd (listen_target a), True)) (take k addrs) @
         [(fst (listen_target (addrs ! k)), snd (listen_target (addrs ! k)), False)]"
      "srv_listeners s0 = srv_listeners s @ [listen_target addr] @ map listen_target (take k addrs)"
      "Listen env (srv_listeners s0) (fst (listen_target (addrs ! k))) (snd (listen_target (addrs ! k))) = Some err"
      by auto
    with eqs show ?thesis by (intro exI [of _ "Suc k"]) simp
  qed
qed

lemma listen_loop_events:
  "listen_loop env s addrs = (tr, s', r) \<Longrightarrow> e \<in> set tr \<Longrightarrow>
     (\<exists>n a ok. e = EvListen n a ok) \<or> (\<exists>m. e = EvLogInfo m None)"
proof (induction addrs arbitrary: s tr s' r)
  case Nil
  then show ?case by simp
next
  case (Cons addr addrs)
  show ?case
  proof (cases "Listen env (srv_listeners s) (fst (listen_target addr)) (snd (listen_target addr))")
    case (Some err)
    with Cons.prems show ?thesis by (auto simp add: listen_loop_Cons)
  next
    case None
    obtain tr0 s0 r0 where
      rec: "listen_loop env (s\<lparr>srv_listeners := srv_listeners s @ [listen_target addr]\<rparr>) addrs = (tr0, s0, r0)"
      by (metis prod_cases3)
    from Cons.prems None rec have
      "tr = EvListen (fst (listen_target addr)) (snd (listen_target addr)) True #
            EvLogInfo (''Higuchi listening at '' @ snd (listen_target addr)) None # tr0"
      by (simp_all add: listen_loop_Cons)
    with Cons.prems(2) Cons.IH [OF rec] show ?thesis by auto
  qed
qed

text \<open>The specification's reading of an address, in the words of the claim.\<close>

lemma listen_target_unix: "listen_target (''unix:'' @ rest) = (''unix'', rest)"
  by (simp add: listen_target_def)

lemma listen_target_tcp: "\<not> (\<exists>rest. addr = ''unix:'' @ rest) \<Longrightarrow> listen_target addr = (''tcp'', addr)"
proof -
  assume no: "\<not> (\<exists>rest. addr = ''unix:'' @ rest)"
  have "take 5 addr \<noteq> ''unix:''"
  proof
    assume "take 5 addr = ''unix:''"
    then have "addr = ''unix:'' @ drop 5 addr" by (metis append_take_drop_id)
    with no show False by blast
  qed
  then show ?thesis by (simp add: listen_target_def)
qed

subsection \<open>Start-up\<close>

lemma startup_config_err:
  "ReadConfig env = Inl err \<Longrightarrow>
     startup env = ([EvReadConfig], None, Some (Errorf ''error while reading config: '' err))"
  by (simp add: startup_def)

lemma startup_pepper_err:
  "ReadConfig env = Inr cfg \<Longrightarrow> Pepper env cfg = Inl err \<Longrightarrow>
     startup env = ([EvReadConfig, EvLoggerCreate, EvPepper, EvLoggerSync], None,
                    Some (Errorf ''error while decoding pepper: '' err))"
  by (simp add: startup_def)

lemma startup_users_err:
  "ReadConfig env = Inr cfg \<Longrightarrow> Pepper env cfg = Inr pepper \<Longrightarrow>
   load_users env cfg pepper = (tr_u, Inl err) \<Longrightarrow>
     startup env = ([EvReadConfig, EvLoggerCreate, EvPepper] @ tr_u @ [EvLoggerSync], None, Some err)"
  by (simp add: startup_def)

lemma startup_listen:
  "ReadConfig env = Inr cfg \<Longrightarrow> Pepper env cfg = Inr pepper \<Longrightarrow>
   load_users env cfg pepper = (tr_u, Inr users) \<Longrightarrow>
   listen_loop env
     (server_New (NewPreallocatedPool
        (worker_factory cfg users (authCompare (Argon2Digest_Compare env)) (certbotConfig_of cfg)) 1024))
     (Server_Listeners cfg) = (tr_l, s', r) \<Longrightarrow>
     startup env =
       ([EvReadConfig, EvLoggerCreate, EvPepper] @ tr_u @ tr_l @ (if r = None then [] else [EvLoggerSync]),
        Some s', r)"
  by (cases r) (simp_all add: startup_def)

lemma load_users_events:
  "load_users env cfg pepper = (tr_u, r) \<Longrightarrow>
     tr_u = (if Filters_Auth_Enabled cfg then [EvReadPasswordsFile (Filters_Auth_PasswordsFile cfg)] else [])"
  by (auto simp: load_users_def split: if_splits sum.splits)

lemma runServe_error:
  "startup env = (tr, so, Some err) \<Longrightarrow>
     runServe env = \<lparr>trace = tr, outcome = Returned (Some err), server_of = so\<rparr>"
  by (cases so) (simp_all add: runServe_def)

lemma runServe_wait:
  "startup env = (tr, Some s, None) \<Longrightarrow>
     runServe env =
       \<lparr>trace = tr @ fst (wait_and_close env s), outcome = fst (snd (wait_and_close env s)),
        server_of = Some (snd (snd (wait_and_close env s)))\<rparr>"
  by (simp add: runServe_def split: prod.splits)

text \<open>The shape of every start-up: a case analysis used by all the theorems on runs.\<close>

lemma startup_cases:
  obtains
    (config_err) err where "ReadConfig env = Inl err"
  | (pepper_err) cfg err where "ReadConfig env = Inr cfg" "Pepper env cfg = Inl err"
  | (users_err) cfg pepper tr_u err where "ReadConfig env = Inr cfg" "Pepper env cfg = Inr pepper"
      "load_users env cfg pepper = (tr_u, Inl err)"
  | (listen) cfg pepper tr_u users tr_l s' r where "ReadConfig env = Inr cfg" "Pepper env cfg = Inr pepper"
      "load_users env cfg pepper = (tr_u, Inr users)"
      "listen_loop env
         (server_New (NewPreallocatedPool
            (worker_factory cfg users (authCompare (Argon2Digest_Compare env)) (certbotConfig_of cfg)) 1024))
         (Server_Listeners cfg) = (tr_l, s', r)"
proof (cases "ReadConfig env")
  case (Inl err)
  then show ?thesis by (rule config_err)
next
  case (Inr cfg)
  note cfg = this
  show ?thesis
  proof (cases "Pepper env cfg")
    case (Inl err)
    with cfg show ?thesis by (rule pepper_err)
  next
    case (Inr pepper)
    note pepper = this
    obtain tr_u ru where lu: "load_users env cfg pepper = (tr_u, ru)" by (cases "load_users env cfg pepper")
    show ?thesis
    proof (cases ru)
      case (Inl err)
      with cfg pepper lu show ?thesis by (intro users_err) auto
    next
      case (Inr users)
      obtain tr_l s' r where "listen_loop env
         (server_New (NewPreallocatedPool
            (worker_factory cfg users (authCompare (Argon2Digest_Compare env)) (certbotConfig_of cfg)) 1024))
         (Server_Listeners cfg) = (tr_l, s', r)" by (metis prod_cases3)
      with cfg pepper lu Inr show ?thesis by (intro listen) auto
    qed
  qed
qed

text \<open>What the server holds once start-up has built it, and what a run reports of it.\<close>

lemma startup_server_pool:
  assumes "startup env = (tr, Some s, r)"
  shows "\<exists>cfg users. ReadConfig env = Inr cfg
           \<and> srv_Pool s = NewPreallocatedPool
                 (worker_factory cfg users (authCompare (Argon2Digest_Compare env)) (certbotConfig_of cfg)) 1024"
proof (cases env rule: startup_cases)
  case (config_err err)
  with assms show ?thesis by (simp add: startup_config_err)
next
  case (pepper_err cfg err)
  with assms show ?thesis by (simp add: startup_pepper_err)
next
  case (users_err cfg pepper tr_u err)
  with assms show ?thesis by (simp add: startup_users_err)
next
  case (listen cfg pepper tr_u users tr_l s' r')
  from assms startup_listen [OF listen] have "s = s'" by simp
  with listen_loop_pool [OF listen(4)] listen(1) show ?thesis
    by (auto simp: server_New_def)
qed

text \<open>The wait: its three ways to end, in closed form.\<close>

lemma wait_and_close_cases:
  "wait_and_close env s =
     (case wait_signal [Interrupt, SIGTERM] (signals env) of
        NoSignal \<Rightarrow> ([EvSignalNotify [Interrupt, SIGTERM]], Blocked, s)
      | ProcessExit sig \<Rightarrow>
          ([EvSignalNotify [Interrupt, SIGTERM], EvProcessExit sig], Exited sig, s)
      | Received sig \<Rightarrow>
          ([EvSignalNotify [Interrupt, SIGTERM], EvSignalRecv sig,
            EvLogInfo ''Received stop signal'' (Some sig), EvServerClose, EvLoggerSync],
           Returned (Close env (srv_listeners s)), server_Close s))"
  by (simp add: wait_and_close_def Let_def)

lemma wait_and_close_pool: "srv_Pool (snd (snd (wait_and_close env s))) = srv_Pool s"
  by (simp add: wait_and_close_cases server_Close_def split: wait_result.splits)

lemma runServe_server_of:
  assumes "startup env = (tr, so, r)" and "server_of (runServe env) = Some s"
  shows "\<exists>s0. so = Some s0 \<and> srv_Pool s = srv_Pool s0"
proof (cases so)
  case None
  with assms show ?thesis by (cases r) (simp_all add: runServe_def)
next
  case (Some s0)
  show ?thesis
  proof (cases r)
    case None
    with assms Some have "s = snd (snd (wait_and_close env s0))"
      by (simp add: runServe_wait)
    with Some show ?thesis by (simp add: wait_and_close_pool)
  next
    case (Some err)
    with assms \<open>so = Some s0\<close> show ?thesis by (simp add: runServe_error)
  qed
qed

text \<open>
  Which signals end the wait: the first signal that is not ignored decides, by being
  relayed to the channel or by ending the process.
\<close>

lemma wait_signal_NoSignal_iff:
  "wait_signal [Interrupt, SIGTERM] sigs = NoSignal \<longleftrightarrow> (\<forall>x\<in>set sigs. \<exists>n. x = OtherIgnored n)"
proof (induction sigs)
  case Nil
  then show ?case by simp
next
  case (Cons sig sigs)
  then show ?case by (cases sig) auto
qed

lemma wait_signal_Received_iff:
  "wait_signal [Interrupt, SIGTERM] sigs = Received sig \<longleftrightarrow>
     (\<exists>pre post. sigs = pre @ sig # post \<and> (\<forall>x\<in>set pre. \<exists>n. x = OtherIgnored n)
        \<and> (sig = Interrupt \<or> sig = SIGTERM))"
proof (induction sigs)
  case Nil
  then show ?case by simp
next
  case (Cons x sigs)
  show ?case
  proof (cases "\<exists>n. x = OtherIgnored n")
    case True
    then obtain n where x: "x = OtherIgnored n" by blast
    have "(\<exists>pre post. x # sigs = pre @ sig # post \<and> (\<forall>y\<in>set pre. \<exists>n. y = OtherIgnored n)
             \<and> (sig = Interrupt \<or> sig = SIGTERM))
          \<longleftrightarrow> (\<exists>pre post. sigs = pre @ sig # post \<and> (\<forall>y\<in>set pre. \<exists>n. y = OtherIgnored n)
             \<and> (sig = Interrupt \<or> sig = SIGTERM))" (is "?L \<longleftrightarrow> ?R")
    proof
      assume ?L
      then obtain pre post where p: "x # sigs = pre @ sig # post"
        "\<forall>y\<in>set pre. \<exists>n. y = OtherIgnored n" "sig = Interrupt \<or> sig = SIGTERM" by blast
      from p(1,3) x obtain pre' where "pre = x # pre'" by (cases pre) auto
      with p show ?R by auto
    next
      assume ?R
      then obtain pre post where p: "sigs = pre @ sig # post"
        "\<forall>y\<in>set pre. \<exists>n. y = OtherIgnored n" "sig = Interrupt \<or> sig = SIGTERM" by blast
      with x have "x # sigs = (x # pre) @ sig # post \<and> (\<forall>y\<in>set (x # pre). \<exists>n. y = OtherIgnored n)"
        by simp
      with p(3) show ?L by blast
    qed
    with Cons.IH x show ?thesis by simp
  next
    case False
    have "(\<exists>pre post. x # sigs = pre @ sig # post \<and> (\<forall>y\<in>set pre. \<exists>n. y = OtherIgnored n)
             \<and> (sig = Interrupt \<or> sig = SIGTERM))
          \<longleftrightarrow> x = sig \<and> (sig = Interrupt \<or> sig = SIGTERM)" (is "?L \<longleftrightarrow> ?R")
    proof
      assume ?L
      then obtain pre post where p: "x # sigs = pre @ sig # post"
        "\<forall>y\<in>set pre. \<exists>n. y = OtherIgnored n" "sig = Interrupt \<or> sig = SIGTERM" by blast
      from p(1,2) False have "pre = []" by (cases pre) auto
      with p show ?R by simp
    next
      assume ?R
      then have "x # sigs = [] @ sig # sigs" by simp
      with \<open>?R\<close> show ?L by (metis empty_iff empty_set)
    qed
    moreover from False have "wait_signal [Interrupt, SIGTERM] (x # sigs) = Received sig
        \<longleftrightarrow> x = sig \<and> (sig = Interrupt \<or> sig = SIGTERM)"
      by (cases x) auto
    ultimately show ?thesis by simp
  qed
qed

text \<open>The calls of \<open>Listen\<close> are made by the listener loop and nowhere else.\<close>

lemma listen_calls_append: "listen_calls (xs @ ys) = listen_calls xs @ listen_calls ys"
  by (induction xs rule: listen_calls.induct) simp_all

lemma load_users_calls: "load_users env cfg pepper = (tr_u, r) \<Longrightarrow> listen_calls tr_u = []"
  by (auto dest: load_users_events split: if_splits)

lemma wait_and_close_calls: "listen_calls (fst (wait_and_close env s)) = []"
  by (simp add: wait_and_close_cases split: wait_result.splits)

text \<open>A run whose start-up got as far as the listener loop.\<close>

lemma runServe_listen:
  assumes "ReadConfig env = Inr cfg" "Pepper env cfg = Inr pepper"
    "load_users env cfg pepper = (tr_u, Inr users)"
    "listen_loop env
       (server_New (NewPreallocatedPool
          (worker_factory cfg users (authCompare (Argon2Digest_Compare env)) (certbotConfig_of cfg)) 1024))
       (Server_Listeners cfg) = (tr_l, s', r)"
  shows "runServe env =
           (case r of
              Some err \<Rightarrow>
                \<lparr>trace = [EvReadConfig, EvLoggerCreate, EvPepper] @ tr_u @ tr_l @ [EvLoggerSync],
                 outcome = Returned (Some err), server_of = Some s'\<rparr>
            | None \<Rightarrow>
                \<lparr>trace = [EvReadConfig, EvLoggerCreate, EvPepper] @ tr_u @ tr_l @ fst (wait_and_close env s'),
                 outcome = fst (snd (wait_and_close env s')),
                 server_of = Some (snd (snd (wait_and_close env s')))\<rparr>)"
proof (cases r)
  case None
  with startup_listen [OF assms] show ?thesis by (simp add: runServe_wait)
next
  case (Some err)
  with startup_listen [OF assms] show ?thesis by (simp add: runServe_error)
qed

text \<open>With the Auth filter disabled, no step of a run looks at the passwords file.\<close>

lemma listen_loop_passwords_irrelevant:
  "listen_loop (env\<lparr>ReadPasswordsFile := f\<rparr>) s addrs = listen_loop env s addrs"
  by (induction addrs arbitrary: s) (simp_all add: listen_loop_Cons split: option.splits)

lemma load_users_disabled:
  "\<not> Filters_Auth_Enabled cfg \<Longrightarrow> load_users env cfg pepper = ([], Inr Map.empty)"
  by (simp add: load_users_def)

lemma startup_passwords_irrelevant:
  assumes "ReadConfig env = Inr cfg" and "\<not> Filters_Auth_Enabled cfg"
  shows "startup (env\<lparr>ReadPasswordsFile := f\<rparr>) = startup env"
  using assms
  by (simp add: startup_def load_users_disabled listen_loop_passwords_irrelevant
        split: sum.splits)

lemma wait_and_close_passwords_irrelevant:
  "wait_and_close (env\<lparr>ReadPasswordsFile := f\<rparr>) s = wait_and_close env s"
  by (simp add: wait_and_close_cases split: wait_result.splits)

subsection \<open>The pool over time\<close>

text \<open>
  No operation of the pool adds or removes a worker: \<open>acquire\<close> and \<open>release\<close> change
  one flag of the array of flags, by a list update, which keeps the length.
\<close>

lemma pool_step_workers: "pool_workers (pool_step p op) = pool_workers p"
  by (cases op) (simp_all add: acquire_def release_def split: option.splits)

lemma pool_step_bound: "length (pool_bound (pool_step p op)) = length (pool_bound p)"
  by (cases op) (auto simp: acquire_def release_def split: option.splits)

lemma pool_run_workers: "pool_workers (pool_run p ops) = pool_workers p"
  by (induction ops arbitrary: p) (simp_all add: pool_step_workers)

lemma pool_run_bound: "length (pool_bound (pool_run p ops)) = length (pool_bound p)"
  by (induction ops arbitrary: p) (simp_all add: pool_step_bound)

lemma pool_start_1024:
  "pool_workers (pool_start (NewPreallocatedPool factory 1024)) =
     map (\<lambda>i. factory (int i)) [0..<1024]"
  "length (pool_bound (pool_start (NewPreallocatedPool factory 1024))) = 1024"
  by simp_all

subsection \<open>The concrete runs\<close>

lemma example_config_fields:
  "Filters_Auth_Enabled example_config = False"
  "Filters_Auth_PasswordsFile example_config = ''passwords''"
  "Server_Listeners example_config = [''127.0.0.1:8080'', ''unix:/run/higuchi.sock'']"
  by (simp_all add: example_config_def)

lemma listen_target_examples:
  "listen_target ''127.0.0.1:8080'' = (''tcp'', ''127.0.0.1:8080'')"
  "listen_target ''unix:/run/higuchi.sock'' = (''unix'', ''/run/higuchi.sock'')"
  by (simp_all add: listen_target_def)

lemma startup_all_bound:
  assumes "ReadConfig env = Inr example_config" and "Pepper env example_config = Inr ''pepper''"
    and "Listen env = (\<lambda>bound network addr. None)"
  shows "startup env =
     ([EvReadConfig, EvLoggerCreate, EvPepper,
       EvListen ''tcp'' ''127.0.0.1:8080'' True, EvLogInfo ''Higuchi listening at 127.0.0.1:8080'' None,
       EvListen ''unix'' ''/run/higuchi.sock'' True, EvLogInfo ''Higuchi listening at /run/higuchi.sock'' None],
      Some \<lparr>srv_Pool = NewPreallocatedPool
               (worker_factory example_config Map.empty (authCompare (Argon2Digest_Compare env))
                  (certbotConfig_of example_config)) 1024,
            srv_listeners = [(''tcp'', ''127.0.0.1:8080''), (''unix'', ''/run/higuchi.sock'')]\<rparr>,
      None)"
proof -
  have users: "load_users env example_config ''pepper'' = ([], Inr Map.empty)"
    by (simp add: load_users_disabled example_config_fields)
  have loop: "listen_loop env s [''127.0.0.1:8080'', ''unix:/run/higuchi.sock''] =
     ([EvListen ''tcp'' ''127.0.0.1:8080'' True, EvLogInfo ''Higuchi listening at 127.0.0.1:8080'' None,
       EvListen ''unix'' ''/run/higuchi.sock'' True, EvLogInfo ''Higuchi listening at /run/higuchi.sock'' None],
      s\<lparr>srv_listeners := srv_listeners s @ [(''tcp'', ''127.0.0.1:8080''), (''unix'', ''/run/higuchi.sock'')]\<rparr>,
      None)" for s
    by (simp add: listen_loop_Cons listen_target_examples assms(3))
  show ?thesis
    by (simp add: startup_listen [OF assms(1,2) users, unfolded example_config_fields, OF loop]
          server_New_def)
qed

lemma startup_example_env:
  "startup example_env =
     ([EvReadConfig, EvLoggerCreate, EvPepper,
       EvListen ''tcp'' ''127.0.0.1:8080'' True, EvLogInfo ''Higuchi listening at 127.0.0.1:8080'' None,
       EvListen ''unix'' ''/run/higuchi.sock'' True, EvLogInfo ''Higuchi listening at /run/higuchi.sock'' None],
      Some \<lparr>srv_Pool = NewPreallocatedPool
               (worker_factory example_config Map.empty (authCompare (Argon2Digest_Compare example_env))
                  (certbotConfig_of example_config)) 1024,
            srv_listeners = [(''tcp'', ''127.0.0.1:8080''), (''unix'', ''/run/higuchi.sock'')]\<rparr>,
      None)"
  by (rule startup_all_bound) (simp_all add: example_env_def)

lemma startup_no_signal_env:
  "startup no_signal_env =
     ([EvReadConfig, EvLoggerCreate, EvPepper,
       EvListen ''tcp'' ''127.0.0.1:8080'' True, EvLogInfo ''Higuchi listening at 127.0.0.1:8080'' None,
       EvListen ''unix'' ''/run/higuchi.sock'' True, EvLogInfo ''Higuchi listening at /run/higuchi.sock'' None],
      Some \<lparr>srv_Pool = NewPreallocatedPool
               (worker_factory example_config Map.empty (authCompare (Argon2Digest_Compare no_signal_env))
                  (certbotConfig_of example_config)) 1024,
            srv_listeners = [(''tcp'', ''127.0.0.1:8080''), (''unix'', ''/run/higuchi.sock'')]\<rparr>,
      None)"
  by (rule startup_all_bound) (simp_all add: no_signal_env_def example_env_def)

lemma startup_hangup_env:
  "startup hangup_env =
     ([EvReadConfig, EvLoggerCreate, EvPepper,
       EvListen ''tcp'' ''127.0.0.1:8080'' True, EvLogInfo ''Higuchi listening at 127.0.0.1:8080'' None,
       EvListen ''unix'' ''/run/higuchi.sock'' True, EvLogInfo ''Higuchi listening at /run/higuchi.sock'' None],
      Some \<lparr>srv_Pool = NewPreallocatedPool
               (worker_factory example_config Map.empty (authCompare (Argon2Digest_Compare hangup_env))
                  (certbotConfig_of example_config)) 1024,
            srv_listeners = [(''tcp'', ''127.0.0.1:8080''), (''unix'', ''/run/higuchi.sock'')]\<rparr>,
      None)"
  by (rule startup_all_bound) (simp_all add: hangup_env_def example_env_def)

lemma startup_no_passwords_env:
  "startup no_passwords_env =
     ([EvReadConfig, EvLoggerCreate, EvPepper,
       EvListen ''tcp'' ''127.0.0.1:8080'' True, EvLogInfo ''Higuchi listening at 127.0.0.1:8080'' None,
       EvListen ''unix'' ''/run/higuchi.sock'' True, EvLogInfo ''Higuchi listening at /run/higuchi.sock'' None],
      Some \<lparr>srv_Pool = NewPreallocatedPool
               (worker_factory example_config Map.empty (authCompare (Argon2Digest_Compare no_passwords_env))
                  (certbotConfig_of example_config)) 1024,
            srv_listeners = [(''tcp'', ''127.0.0.1:8080''), (''unix'', ''/run/higuchi.sock'')]\<rparr>,
      None)"
  by (rule startup_all_bound) (simp_all add: no_passwords_env_def example_env_def)

lemma runServe_bind_failure_env:
  "trace (runServe bind_failure_env) =
     [EvReadConfig, EvLoggerCreate, EvPepper,
      EvListen ''tcp'' ''127.0.0.1:8080'' True, EvLogInfo ''Higuchi listening at 127.0.0.1:8080'' None,
      EvListen ''unix'' ''/run/higuchi.sock'' False, EvLoggerSync]"
  "outcome (runServe bind_failure_env) = Returned (Some (Error ''listen unix: permission denied''))"
proof -
  have cfg: "ReadConfig bind_failure_env = Inr example_config"
    and pepper: "Pepper bind_failure_env example_config = Inr ''pepper''"
    and listen: "Listen bind_failure_env = (\<lambda>bound network addr.
          if network = ''unix'' then Some (Error ''listen unix: permission denied'') else None)"
    by (simp_all add: bind_failure_env_def example_env_def)
  have users: "load_users bind_failure_env example_config ''pepper'' = ([], Inr Map.empty)"
    by (simp add: load_users_disabled example_config_fields)
  have loop: "listen_loop bind_failure_env s [''127.0.0.1:8080'', ''unix:/run/higuchi.sock''] =
     ([EvListen ''tcp'' ''127.0.0.1:8080'' True, EvLogInfo ''Higuchi listening at 127.0.0.1:8080'' None,
       EvListen ''unix'' ''/run/higuchi.sock'' False],
      s\<lparr>srv_listeners := srv_listeners s @ [(''tcp'', ''127.0.0.1:8080'')]\<rparr>,
      Some (Error ''listen unix: permission denied''))" for s
    by (simp add: listen_loop_Cons listen_target_examples listen)
  note run = runServe_listen [OF cfg pepper users, unfolded example_config_fields, OF loop]
  show "trace (runServe bind_failure_env) =
     [EvReadConfig, EvLoggerCreate, EvPepper,
      EvListen ''tcp'' ''127.0.0.1:8080'' True, EvLogInfo ''Higuchi listening at 127.0.0.1:8080'' None,
      EvListen ''unix'' ''/run/higuchi.sock'' False, EvLoggerSync]"
    by (simp add: run)
  show "outcome (runServe bind_failure_env) = Returned (Some (Error ''listen unix: permission denied''))"
    by (simp add: run)
qed

lemma startup_capacity_env:
  "startup capacity_env =
     ([EvReadConfig, EvLoggerCreate, EvPepper,
       EvListen ''tcp'' ''127.0.0.1:8080'' True, EvLogInfo ''Higuchi listening at 127.0.0.1:8080'' None],
      Some \<lparr>srv_Pool = NewPreallocatedPool
               (worker_factory capacity_config Map.empty (authCompare (Argon2Digest_Compare capacity_env))
                  (certbotConfig_of capacity_config)) 1024,
            srv_listeners = [(''tcp'', ''127.0.0.1:8080'')]\<rparr>, None)"
proof -
  have 1: "ReadConfig capacity_env = Inr capacity_config" by (simp add: capacity_env_def)
  have 2: "Pepper capacity_env capacity_config = Inr ''pepper''" by (simp add: capacity_env_def)
  have 3: "load_users capacity_env capacity_config ''pepper'' = ([], Inr Map.empty)"
    by (simp add: load_users_def capacity_config_def)
  have 4: "Server_Listeners capacity_config = [''127.0.0.1:8080'']"
    by (simp add: capacity_config_def)
  have 5: "Listen capacity_env = (\<lambda>bound network addr. None)" by (simp add: capacity_env_def)
  have 6: "listen_loop capacity_env s [''127.0.0.1:8080''] =
     ([EvListen ''tcp'' ''127.0.0.1:8080'' True, EvLogInfo ''Higuchi listening at 127.0.0.1:8080'' None],
      s\<lparr>srv_listeners := srv_listeners s @ [(''tcp'', ''127.0.0.1:8080'')]\<rparr>, None)" for s
    by (simp add: listen_loop_Cons listen_target_def 5)
  show ?thesis
    by (simp add: startup_listen [OF 1 2 3, unfolded 4, OF 6] server_New_def)
qed

subsection \<open>The claims\<close>

text \<open>
  C1. For every configuration, the nested chain handed to the Parse filter of a worker is
  built in the order Forwarded, Certbot, Auth, Tunnel, Forward, where each of the first
  three is present exactly when its filter is enabled; Forward is the last element and
  Tunnel the one before it.
\<close>

theorem nested_chain_order:
  "nested_chains (worker_filters (worker_factory cfg users cmp cc num)) =
     [http_filters cfg users cmp cc]
   \<and> map http_kind_of (http_filters cfg users cmp cc) =
       (if Filters_Forwarded_Enabled cfg then [Forwarded] else []) @
       (if Filters_Certbot_Enabled cfg then [Certbot] else []) @
       (if Filters_Auth_Enabled cfg then [Auth] else []) @ [Tunnel, Forward]
   \<and> (Forwarded \<in> set (map http_kind_of (http_filters cfg users cmp cc))
        \<longleftrightarrow> Filters_Forwarded_Enabled cfg)
   \<and> (Certbot \<in> set (map http_kind_of (http_filters cfg users cmp cc))
        \<longleftrightarrow> Filters_Certbot_Enabled cfg)
   \<and> (Auth \<in> set (map http_kind_of (http_filters cfg users cmp cc))
        \<longleftrightarrow> Filters_Auth_Enabled cfg)
   \<and> http_kind_of (last (http_filters cfg users cmp cc)) = Forward
   \<and> http_kind_of (last (butlast (http_filters cfg users cmp cc))) = Tunnel"
  by (simp add: http_filters_eq worker_filters_factory)

text \<open>
  C2. For every supplied password \<open>p\<close> and every stored value \<open>v\<close>, \<open>authCompare\<close> returns
  true exactly when \<open>v\<close> is a plaintext string equal to \<open>p\<close>, or \<open>v\<close> is an Argon2 digest
  whose \<open>Compare\<close> on \<open>p\<close> returns 0; on a stored value of any other variant it returns
  false.
\<close>

theorem authCompare_iff:
  "(authCompare Compare p v \<longleftrightarrow>
      (\<exists>s. v = IString s \<and> s = p) \<or> (\<exists>d. v = IArgon2Digest d \<and> Compare d p = 0))
   \<and> authCompare Compare p INil = False
   \<and> authCompare Compare p (IOther t) = False"
  by (cases v) (auto simp: authCompare_def)

text \<open>
  C3, as the claim states it, fails: a configuration that supplies a worker-pool capacity
  of 2 is read, start-up succeeds, and the pool handed to the server has been built with
  the size 1024.
\<close>

theorem pool_capacity_counterexample:
  "ReadConfig capacity_env = Inr capacity_config
   \<and> Worker_PoolCapacity capacity_config = 2
   \<and> map_option (\<lambda>s. pool_size (srv_Pool s)) (server_of (runServe capacity_env)) = Some 1024"
proof -
  have "server_of (runServe capacity_env) =
          Some (snd (snd (wait_and_close capacity_env
            \<lparr>srv_Pool = NewPreallocatedPool
               (worker_factory capacity_config Map.empty (authCompare (Argon2Digest_Compare capacity_env))
                  (certbotConfig_of capacity_config)) 1024,
             srv_listeners = [(''tcp'', ''127.0.0.1:8080'')]\<rparr>)))"
    by (simp add: runServe_wait [OF startup_capacity_env])
  then have "map_option (\<lambda>s. pool_size (srv_Pool s)) (server_of (runServe capacity_env)) = Some 1024"
    by (simp add: wait_and_close_pool)
  then show ?thesis by (simp add: capacity_env_def capacity_config_def)
qed

text \<open>
  C3, amended. In every run that gets as far as building the server, the worker pool is
  constructed with capacity 1024: the size \<open>runServe\<close> passes to
  \<open>pool.NewPreallocatedPool\<close> is the constant 1024 and not a value of the configuration,
  and the pool starts with the 1024 workers the factory makes for the numbers 0 to 1023.
  This capacity is fixed at construction: after any sequence of acquire and release
  operations the pool holds the same 1024 workers, with 1024 idle-or-bound marks, no
  more and no fewer.
\<close>

theorem pool_size_constant:
  assumes "server_of (runServe env) = Some s"
  shows "pool_size (srv_Pool s) = 1024
         \<and> (\<exists>cfg users. ReadConfig env = Inr cfg
               \<and> srv_Pool s = NewPreallocatedPool
                    (worker_factory cfg users (authCompare (Argon2Digest_Compare env)) (certbotConfig_of cfg))
                    1024)
         \<and> capacity (pool_start (srv_Pool s)) = 1024
         \<and> (\<forall>ops. capacity (pool_run (pool_start (srv_Pool s)) ops) = 1024
               \<and> length (pool_bound (pool_run (pool_start (srv_Pool s)) ops)) = 1024
               \<and> pool_workers (pool_run (pool_start (srv_Pool s)) ops) =
                   map (\<lambda>i. pool_factory (srv_Pool s) (int i)) [0..<1024])"
proof -
  obtain tr so r where st: "startup env = (tr, so, r)" by (metis prod_cases3)
  from runServe_server_of [OF st assms] obtain s0 where
    s0: "startup env = (tr, Some s0, r)" "srv_Pool s = srv_Pool s0" using st by auto
  from startup_server_pool [OF s0(1)] s0(2) obtain cfg users where
    cfg: "ReadConfig env = Inr cfg"
    and pool: "srv_Pool s = NewPreallocatedPool
                 (worker_factory cfg users (authCompare (Argon2Digest_Compare env)) (certbotConfig_of cfg))
                 1024"
    by auto
  have "capacity (pool_run (pool_start (srv_Pool s)) ops) = 1024
        \<and> length (pool_bound (pool_run (pool_start (srv_Pool s)) ops)) = 1024
        \<and> pool_workers (pool_run (pool_start (srv_Pool s)) ops) =
            map (\<lambda>i. pool_factory (srv_Pool s) (int i)) [0..<1024]" for ops
    unfolding pool capacity_def pool_run_workers pool_run_bound pool_start_1024 by simp
  moreover have "capacity (pool_start (srv_Pool s)) = 1024"
    unfolding pool capacity_def pool_start_1024 by simp
  ultimately show ?thesis using cfg pool by auto
qed

text \<open>
  C3, witness: the run on the configuration that asks for two workers builds the server;
  its pool has size 1024 and still has capacity 1024 after two workers were acquired and
  the first released.
\<close>

theorem pool_size_constant_witness:
  "map_option (\<lambda>s. pool_size (srv_Pool s)) (server_of (runServe capacity_env)) = Some 1024
   \<and> map_option (\<lambda>s. capacity (pool_run (pool_start (srv_Pool s)) [Acquire, Acquire, Release 0]))
        (server_of (runServe capacity_env)) = Some 1024"
proof -
  obtain s where s: "server_of (runServe capacity_env) = Some s"
    by (simp add: runServe_wait [OF startup_capacity_env])
  from pool_size_constant [OF s]
  have "pool_size (srv_Pool s) = 1024"
    and "capacity (pool_run (pool_start (srv_Pool s)) [Acquire, Acquire, Release 0]) = 1024"
    by blast+
  then show ?thesis unfolding s by (simp del: pool_run.simps)
qed

text \<open>
  C4. For every configuration and every worker number, the top-level chain of the worker
  is HealthCheck followed by Parse when the health-check filter is enabled, and Parse
  alone when it is disabled; the filters themselves are the HealthCheck filter for the
  configured method and path and the Parse filter over the nested chain.
\<close>

theorem top_level_chain:
  "map top_kind_of (worker_filters (worker_factory cfg users cmp cc num)) =
     (if Filters_Healthcheck_Enabled cfg then [TopHealthCheck, TopParse] else [TopParse])
   \<and> worker_filters (worker_factory cfg users cmp cc num) =
       (if Filters_Healthcheck_Enabled cfg
        then [NewHealthCheckFilter (Filters_Healthcheck_Method cfg) (Filters_Healthcheck_Path cfg),
              NewParseFilter (http_filters cfg users cmp cc)]
        else [NewParseFilter (http_filters cfg users cmp cc)])"
  by (simp add: worker_filters_factory)

text \<open>
  C5, as the claim states it, fails for a bind failure: with a TCP listener configured
  before a local socket that cannot be bound, \<open>runServe\<close> returns the error of the second
  \<open>Listen\<close> only after the first listener has been bound; the listen phase has been
  entered, and the first listener is left bound.
\<close>

theorem bind_failure_counterexample:
  "ReadConfig bind_failure_env = Inr example_config
   \<and> Server_Listeners example_config = [''127.0.0.1:8080'', ''unix:/run/higuchi.sock'']
   \<and> Listen bind_failure_env [(''tcp'', ''127.0.0.1:8080'')] ''unix'' ''/run/higuchi.sock''
       = Some (Error ''listen unix: permission denied'')
   \<and> outcome (runServe bind_failure_env) = Returned (Some (Error ''listen unix: permission denied''))
   \<and> listen_calls (trace (runServe bind_failure_env)) =
       [(''tcp'', ''127.0.0.1:8080'', True), (''unix'', ''/run/higuchi.sock'', False)]
   \<and> EvListen ''tcp'' ''127.0.0.1:8080'' True \<in> set (trace (runServe bind_failure_env))"
  by (simp add: runServe_bind_failure_env example_config_fields)
     (simp add: bind_failure_env_def example_env_def)

text \<open>
  C5, amended. \<open>runServe\<close> returns an error without registering for signals, receiving
  one or calling \<open>Server.Close\<close> in each of three cases. When reading the configuration
  fails, it returns "error while reading config: ..." and has done nothing else. When the
  configuration and the pepper are read, the Auth filter is enabled and the passwords
  file cannot be read, it returns "error while reading passwords file: ..." and has made
  no call of \<open>Listen\<close>. When the call of \<open>Listen\<close> for a configured listener fails, it
  returns the error of that call; the listeners configured before it have been bound, in
  order, each with the network and address of its entry, and no later one is tried.
\<close>

theorem startup_failure_aborts:
  "(ReadConfig env = Inl err \<longrightarrow>
      runServe env =
        \<lparr>trace = [EvReadConfig],
         outcome = Returned (Some (Errorf ''error while reading config: '' err)),
         server_of = None\<rparr>)
   \<and> (ReadConfig env = Inr cfg \<and> Pepper env cfg = Inr pepper \<and> Filters_Auth_Enabled cfg \<and>
      ReadPasswordsFile env pepper (Filters_Auth_PasswordsFile cfg) = Inl err \<longrightarrow>
      runServe env =
        \<lparr>trace = [EvReadConfig, EvLoggerCreate, EvPepper,
                  EvReadPasswordsFile (Filters_Auth_PasswordsFile cfg), EvLoggerSync],
         outcome = Returned (Some (Errorf ''error while reading passwords file: '' err)),
         server_of = None\<rparr>)
   \<and> (ReadConfig env = Inr cfg \<and> (network, addr, False) \<in> set (listen_calls (trace (runServe env))) \<longrightarrow>
      (\<exists>k<length (Server_Listeners cfg).
          listen_calls (trace (runServe env)) =
            map (\<lambda>a. (fst (listen_target a), snd (listen_target a), True)) (take k (Server_Listeners cfg)) @
            [(network, addr, False)]
          \<and> (network, addr) = listen_target (Server_Listeners cfg ! k)
          \<and> (\<exists>e. Listen env (map listen_target (take k (Server_Listeners cfg))) network addr = Some e
                 \<and> outcome (runServe env) = Returned (Some e)))
      \<and> EvServerClose \<notin> set (trace (runServe env))
      \<and> (\<forall>sigs. EvSignalNotify sigs \<notin> set (trace (runServe env)))
      \<and> (\<forall>sig. EvSignalRecv sig \<notin> set (trace (runServe env))))"
proof (intro conjI impI)
  assume "ReadConfig env = Inl err"
  then show "runServe env =
        \<lparr>trace = [EvReadConfig],
         outcome = Returned (Some (Errorf ''error while reading config: '' err)),
         server_of = None\<rparr>"
    by (simp add: runServe_error [OF startup_config_err])
next
  assume a: "ReadConfig env = Inr cfg \<and> Pepper env cfg = Inr pepper \<and> Filters_Auth_Enabled cfg \<and>
      ReadPasswordsFile env pepper (Filters_Auth_PasswordsFile cfg) = Inl err"
  then have "load_users env cfg pepper =
      ([EvReadPasswordsFile (Filters_Auth_PasswordsFile cfg)],
       Inl (Errorf ''error while reading passwords file: '' err))"
    by (simp add: load_users_def)
  with a show "runServe env =
        \<lparr>trace = [EvReadConfig, EvLoggerCreate, EvPepper,
                  EvReadPasswordsFile (Filters_Auth_PasswordsFile cfg), EvLoggerSync],
         outcome = Returned (Some (Errorf ''error while reading passwords file: '' err)),
         server_of = None\<rparr>"
    by (simp add: runServe_error [OF startup_users_err])
next
  assume a: "ReadConfig env = Inr cfg \<and> (network, addr, False) \<in> set (listen_calls (trace (runServe env)))"
  then have cfg: "ReadConfig env = Inr cfg"
    and failed: "(network, addr, False) \<in> set (listen_calls (trace (runServe env)))" by simp_all
  have "(\<exists>k<length (Server_Listeners cfg).
          listen_calls (trace (runServe env)) =
            map (\<lambda>a. (fst (listen_target a), snd (listen_target a), True)) (take k (Server_Listeners cfg)) @
            [(network, addr, False)]
          \<and> (network, addr) = listen_target (Server_Listeners cfg ! k)
          \<and> (\<exists>e. Listen env (map listen_target (take k (Server_Listeners cfg))) network addr = Some e
                 \<and> outcome (runServe env) = Returned (Some e)))
      \<and> EvServerClose \<notin> set (trace (runServe env))
      \<and> (\<forall>sigs. EvSignalNotify sigs \<notin> set (trace (runServe env)))
      \<and> (\<forall>sig. EvSignalRecv sig \<notin> set (trace (runServe env)))"
  proof (cases env rule: startup_cases)
    case (config_err err')
    with cfg show ?thesis by simp
  next
    case (pepper_err cfg' err')
    with failed show ?thesis by (simp add: runServe_error [OF startup_pepper_err])
  next
    case (users_err cfg' pepper' tr_u err')
    with failed load_users_calls [OF users_err(3)] show ?thesis
      by (simp add: runServe_error [OF startup_users_err] listen_calls_append)
  next
    case (listen cfg' pepper' tr_u users tr_l s' r)
    from listen(1) cfg have [simp]: "cfg' = cfg" by simp
    note run = runServe_listen [OF listen]
    note lu = load_users_calls [OF listen(3)]
    show ?thesis
    proof (cases r)
      case None
      from listen_loop_ok [OF listen(4) [unfolded None]]
      have "listen_calls tr_l =
              map (\<lambda>a. (fst (listen_target a), snd (listen_target a), True)) (Server_Listeners cfg)"
        by simp
      with failed run None lu show ?thesis
        by (auto simp: listen_calls_append wait_and_close_calls)
    next
      case (Some e)
      from listen_loop_err [OF listen(4) [unfolded Some]] obtain k where k:
        "k < length (Server_Listeners cfg)"
        "listen_calls tr_l =
           map (\<lambda>a. (fst (listen_target a), snd (listen_target a), True)) (take k (Server_Listeners cfg)) @
           [(fst (listen_target (Server_Listeners cfg ! k)), snd (listen_target (Server_Listeners cfg ! k)), False)]"
        "srv_listeners s' = map listen_target (take k (Server_Listeners cfg))"
        "Listen env (srv_listeners s') (fst (listen_target (Server_Listeners cfg ! k)))
           (snd (listen_target (Server_Listeners cfg ! k))) = Some e"
        by (auto simp: server_New_def)
      have calls: "listen_calls (trace (runServe env)) = listen_calls tr_l"
        using run Some lu by (simp add: listen_calls_append)
      from failed calls k(2) have na: "(network, addr) = listen_target (Server_Listeners cfg ! k)"
        by auto
      have ev: "\<And>ev. ev \<in> set (trace (runServe env)) \<Longrightarrow>
          ev \<in> {EvReadConfig, EvLoggerCreate, EvPepper, EvLoggerSync}
          \<or> (\<exists>p. ev = EvReadPasswordsFile p) \<or> (\<exists>n a ok. ev = EvListen n a ok) \<or> (\<exists>m. ev = EvLogInfo m None)"
        using run Some load_users_events [OF listen(3)] listen_loop_events [OF listen(4)]
        by (auto split: if_splits)
      have 1: "EvServerClose \<notin> set (trace (runServe env))" using ev by fastforce
      have 2: "\<forall>sigs. EvSignalNotify sigs \<notin> set (trace (runServe env))" using ev by fastforce
      have 3: "\<forall>sig. EvSignalRecv sig \<notin> set (trace (runServe env))" using ev by fastforce
      have 4: "outcome (runServe env) = Returned (Some e)" using run Some by simp
      from na have na': "fst (listen_target (Server_Listeners cfg ! k)) = network"
        "snd (listen_target (Server_Listeners cfg ! k)) = addr" by (metis fst_conv, metis snd_conv)
      show ?thesis
        using k 1 2 3 4 na calls unfolding na' by (intro conjI exI [of _ k]) auto
    qed
  qed
  then show "\<exists>k<length (Server_Listeners cfg).
          listen_calls (trace (runServe env)) =
            map (\<lambda>a. (fst (listen_target a), snd (listen_target a), True)) (take k (Server_Listeners cfg)) @
            [(network, addr, False)]
          \<and> (network, addr) = listen_target (Server_Listeners cfg ! k)
          \<and> (\<exists>e. Listen env (map listen_target (take k (Server_Listeners cfg))) network addr = Some e
                 \<and> outcome (runServe env) = Returned (Some e))"
    and "EvServerClose \<notin> set (trace (runServe env))"
    and "\<forall>sigs. EvSignalNotify sigs \<notin> set (trace (runServe env))"
    and "\<forall>sig. EvSignalRecv sig \<notin> set (trace (runServe env))"
    by blast+
qed

text \<open>
  C5, witness: the three cases on concrete environments: an unreadable configuration, an
  unreadable passwords file with the Auth filter enabled, and a local socket that cannot
  be bound.
\<close>

theorem startup_failure_aborts_witness:
  "ReadConfig config_failure_env = Inl (Error ''open higuchi.yaml: no such file or directory'')
   \<and> runServe config_failure_env =
       \<lparr>trace = [EvReadConfig],
        outcome = Returned (Some (Error
          ''error while reading config: open higuchi.yaml: no such file or directory'')),
        server_of = None\<rparr>
   \<and> ReadConfig passwords_failure_env = Inr (example_config\<lparr>Filters_Auth_Enabled := True\<rparr>)
   \<and> runServe passwords_failure_env =
       \<lparr>trace = [EvReadConfig, EvLoggerCreate, EvPepper, EvReadPasswordsFile ''passwords'',
                 EvLoggerSync],
        outcome = Returned (Some (Error
          ''error while reading passwords file: open passwords: no such file or directory'')),
        server_of = None\<rparr>
   \<and> (''unix'', ''/run/higuchi.sock'', False) \<in> set (listen_calls (trace (runServe bind_failure_env)))
   \<and> listen_calls (trace (runServe bind_failure_env)) =
       [(''tcp'', ''127.0.0.1:8080'', True), (''unix'', ''/run/higuchi.sock'', False)]
   \<and> EvServerClose \<notin> set (trace (runServe bind_failure_env))"
proof -
  have c: "ReadConfig config_failure_env = Inl (Error ''open higuchi.yaml: no such file or directory'')"
    by (simp add: config_failure_env_def)
  have p: "ReadConfig passwords_failure_env = Inr (example_config\<lparr>Filters_Auth_Enabled := True\<rparr>)
      \<and> Pepper passwords_failure_env (example_config\<lparr>Filters_Auth_Enabled := True\<rparr>) = Inr ''pepper''
      \<and> Filters_Auth_Enabled (example_config\<lparr>Filters_Auth_Enabled := True\<rparr>)
      \<and> ReadPasswordsFile passwords_failure_env ''pepper''
           (Filters_Auth_PasswordsFile (example_config\<lparr>Filters_Auth_Enabled := True\<rparr>))
         = Inl (Error ''open passwords: no such file or directory'')"
    by (simp add: passwords_failure_env_def example_env_def)
  have b: "ReadConfig bind_failure_env = Inr example_config
      \<and> (''unix'', ''/run/higuchi.sock'', False) \<in> set (listen_calls (trace (runServe bind_failure_env)))"
    by (simp add: runServe_bind_failure_env) (simp add: bind_failure_env_def example_env_def)
  from startup_failure_aborts [of config_failure_env "Error ''open higuchi.yaml: no such file or directory''"] c
  have 1: "runServe config_failure_env =
       \<lparr>trace = [EvReadConfig],
        outcome = Returned (Some (Error
          ''error while reading config: open higuchi.yaml: no such file or directory'')),
        server_of = None\<rparr>"
    by simp
  from startup_failure_aborts [of passwords_failure_env
      "Error ''open passwords: no such file or directory''"
      "example_config\<lparr>Filters_Auth_Enabled := True\<rparr>" "''pepper''"] p
  have 2: "runServe passwords_failure_env =
       \<lparr>trace = [EvReadConfig, EvLoggerCreate, EvPepper, EvReadPasswordsFile ''passwords'',
                 EvLoggerSync],
        outcome = Returned (Some (Error
          ''error while reading passwords file: open passwords: no such file or directory'')),
        server_of = None\<rparr>"
    by (simp add: example_config_def)
  from startup_failure_aborts [of bind_failure_env _ example_config _ "''unix''" "''/run/higuchi.sock''"] b
  have 3: "EvServerClose \<notin> set (trace (runServe bind_failure_env))" by blast
  from c p b 1 2 3 show ?thesis by (simp add: runServe_bind_failure_env)
qed

text \<open>
  C6. The calls of \<open>Listen\<close> that a run makes are, in order, for the configured listener
  addresses, each with the network and address \<open>listen_target\<close> gives: network "unix" and
  the address without its leading "unix:" when the address starts with "unix:", network
  "tcp" and the address unchanged otherwise. A run that does not return an error has
  made the call for every configured address, and each has bound its listener.
\<close>

theorem listen_network_and_address:
  assumes "ReadConfig env = Inr cfg"
  shows "(\<exists>k\<le>length (Server_Listeners cfg).
            map (\<lambda>c. (fst c, fst (snd c))) (listen_calls (trace (runServe env))) =
              map listen_target (take k (Server_Listeners cfg)))
         \<and> ((\<forall>e. outcome (runServe env) \<noteq> Returned (Some e)) \<longrightarrow>
              listen_calls (trace (runServe env)) =
                map (\<lambda>a. (fst (listen_target a), snd (listen_target a), True)) (Server_Listeners cfg))
         \<and> (\<forall>rest. listen_target (''unix:'' @ rest) = (''unix'', rest))
         \<and> (\<forall>a. (\<nexists>rest. a = ''unix:'' @ rest) \<longrightarrow> listen_target a = (''tcp'', a))"
proof -
  have A: "(\<exists>k\<le>length (Server_Listeners cfg).
            map (\<lambda>c. (fst c, fst (snd c))) (listen_calls (trace (runServe env))) =
              map listen_target (take k (Server_Listeners cfg)))
         \<and> ((\<forall>e. outcome (runServe env) \<noteq> Returned (Some e)) \<longrightarrow>
              listen_calls (trace (runServe env)) =
                map (\<lambda>a. (fst (listen_target a), snd (listen_target a), True)) (Server_Listeners cfg))"
  proof (cases env rule: startup_cases)
    case (config_err err)
    with assms show ?thesis by simp
  next
    case (pepper_err cfg' err)
    then have "listen_calls (trace (runServe env)) = []"
      "outcome (runServe env) = Returned (Some (Errorf ''error while decoding pepper: '' err))"
      by (simp_all add: runServe_error [OF startup_pepper_err])
    then show ?thesis by (intro conjI exI [of _ 0]) simp_all
  next
    case (users_err cfg' pepper tr_u err)
    with load_users_calls [OF users_err(3)] have "listen_calls (trace (runServe env)) = []"
      "outcome (runServe env) = Returned (Some err)"
      by (simp_all add: runServe_error [OF startup_users_err] listen_calls_append)
    then show ?thesis by (intro conjI exI [of _ 0]) simp_all
  next
    case (listen cfg' pepper tr_u users tr_l s' r)
    from listen(1) assms have [simp]: "cfg' = cfg" by simp
    note run = runServe_listen [OF listen]
    note lu = load_users_calls [OF listen(3)]
    show ?thesis
    proof (cases r)
      case None
      from listen_loop_ok [OF listen(4) [unfolded None]]
      have "listen_calls tr_l =
              map (\<lambda>a. (fst (listen_target a), snd (listen_target a), True)) (Server_Listeners cfg)"
        by simp
      with run None lu have calls: "listen_calls (trace (runServe env)) =
          map (\<lambda>a. (fst (listen_target a), snd (listen_target a), True)) (Server_Listeners cfg)"
        by (simp add: listen_calls_append wait_and_close_calls)
      have "map (\<lambda>c. (fst c, fst (snd c))) (listen_calls (trace (runServe env))) =
              map listen_target (take (length (Server_Listeners cfg)) (Server_Listeners cfg))"
        unfolding calls by (simp add: comp_def)
      with calls show ?thesis by blast
    next
      case (Some e)
      from listen_loop_err [OF listen(4) [unfolded Some]] obtain k where k:
        "k < length (Server_Listeners cfg)"
        "listen_calls tr_l =
           map (\<lambda>a. (fst (listen_target a), snd (listen_target a), True)) (take k (Server_Listeners cfg)) @
           [(fst (listen_target (Server_Listeners cfg ! k)), snd (listen_target (Server_Listeners cfg ! k)), False)]"
        by auto
      have calls: "listen_calls (trace (runServe env)) = listen_calls tr_l"
        using run Some lu by (simp add: listen_calls_append)
      have "map (\<lambda>c. (fst c, fst (snd c))) (listen_calls (trace (runServe env))) =
              map listen_target (take (Suc k) (Server_Listeners cfg))"
        unfolding calls k(2) using k(1) by (simp add: comp_def take_Suc_conv_app_nth)
      moreover have "Suc k \<le> length (Server_Listeners cfg)" using k(1) by simp
      moreover have "outcome (runServe env) = Returned (Some e)" using run Some by simp
      ultimately show ?thesis by blast
    qed
  qed
  have B: "\<forall>rest. listen_target (''unix:'' @ rest) = (''unix'', rest)"
    using listen_target_unix by blast
  have C: "\<forall>a. (\<nexists>rest. a = ''unix:'' @ rest) \<longrightarrow> listen_target a = (''tcp'', a)"
    using listen_target_tcp by blast
  from A B C show ?thesis by blast
qed

text \<open>
  C6, witness: the run on the example configuration listens on TCP 127.0.0.1:8080 and on
  the local socket /run/higuchi.sock.
\<close>

theorem listen_network_and_address_witness:
  "ReadConfig example_env = Inr example_config
   \<and> listen_calls (trace (runServe example_env)) =
       [(''tcp'', ''127.0.0.1:8080'', True), (''unix'', ''/run/higuchi.sock'', True)]"
proof -
  have c: "ReadConfig example_env = Inr example_config" by (simp add: example_env_def)
  have "outcome (runServe example_env) = Returned None"
    by (simp add: runServe_wait [OF startup_example_env] wait_and_close_cases)
       (simp add: example_env_def)
  then have "\<forall>e. outcome (runServe example_env) \<noteq> Returned (Some e)" by simp
  with listen_network_and_address [OF c]
  have "listen_calls (trace (runServe example_env)) =
          map (\<lambda>a. (fst (listen_target a), snd (listen_target a), True)) (Server_Listeners example_config)"
    by blast
  with c show ?thesis by (simp add: example_config_fields listen_target_examples)
qed

text \<open>
  C7. After a start-up that succeeds, \<open>runServe\<close> registers the channel for the interrupt
  signal (\<open>os.Interrupt\<close>, SIGINT) and SIGTERM and blocks. It returns exactly when one of
  these two signals is received, that is, when one arrives and only ignored signals came
  before it; then it logs, calls \<open>Server.Close\<close> once, after which the server accepts on
  no listener, and returns the result of that call. When no signal but ignored ones
  arrives it stays blocked, and when another signal ends the process first it never
  returns; in both cases no call of \<open>Server.Close\<close> is made and the server still accepts
  on every configured listener. No call of \<open>Server.Close\<close> is made during start-up.
\<close>

theorem signal_wait_then_close:
  assumes "startup env = (tr, Some s, None)"
  shows "runServe env =
           (case wait_signal [Interrupt, SIGTERM] (signals env) of
              NoSignal \<Rightarrow>
                \<lparr>trace = tr @ [EvSignalNotify [Interrupt, SIGTERM]], outcome = Blocked,
                 server_of = Some s\<rparr>
            | ProcessExit sig \<Rightarrow>
                \<lparr>trace = tr @ [EvSignalNotify [Interrupt, SIGTERM], EvProcessExit sig],
                 outcome = Exited sig, server_of = Some s\<rparr>
            | Received sig \<Rightarrow>
                \<lparr>trace = tr @ [EvSignalNotify [Interrupt, SIGTERM], EvSignalRecv sig,
                          EvLogInfo ''Received stop signal'' (Some sig), EvServerClose, EvLoggerSync],
                 outcome = Returned (Close env (srv_listeners s)),
                 server_of = Some (server_Close s)\<rparr>)
         \<and> ((\<exists>r. outcome (runServe env) = Returned r) \<longleftrightarrow>
              (\<exists>pre sig post. signals env = pre @ sig # post
                 \<and> (\<forall>x\<in>set pre. \<exists>n. x = OtherIgnored n)
                 \<and> (sig = Interrupt \<or> sig = SIGTERM)))
         \<and> (outcome (runServe env) = Blocked \<longleftrightarrow>
              (\<forall>x\<in>set (signals env). \<exists>n. x = OtherIgnored n))
         \<and> (EvServerClose \<in> set (trace (runServe env)) \<longleftrightarrow>
              (\<exists>r. outcome (runServe env) = Returned r))
         \<and> EvServerClose \<notin> set tr
         \<and> srv_listeners (server_Close s) = []
         \<and> (\<exists>cfg. ReadConfig env = Inr cfg \<and> srv_listeners s = map listen_target (Server_Listeners cfg))"
proof -
  have rest: "EvServerClose \<notin> set tr
      \<and> (\<exists>cfg. ReadConfig env = Inr cfg \<and> srv_listeners s = map listen_target (Server_Listeners cfg))"
  proof (cases env rule: startup_cases)
    case (config_err err)
    with assms show ?thesis by (simp add: startup_config_err)
  next
    case (pepper_err cfg err)
    with assms show ?thesis by (simp add: startup_pepper_err)
  next
    case (users_err cfg pepper tr_u err)
    with assms show ?thesis by (simp add: startup_users_err)
  next
    case (listen cfg pepper tr_u users tr_l s' r)
    from assms startup_listen [OF listen] have eq0: "r = None" "s' = s" by simp_all
    from assms startup_listen [OF listen] eq0
    have eq1: "tr = [EvReadConfig, EvLoggerCreate, EvPepper] @ tr_u @ tr_l" by simp
    from listen_loop_ok [OF listen(4) [unfolded eq0]]
    have ls: "srv_listeners s = map listen_target (Server_Listeners cfg)"
      by (simp add: server_New_def)
    have "EvServerClose \<notin> set tr"
      using eq1 load_users_events [OF listen(3)] listen_loop_events [OF listen(4)]
      by (auto split: if_splits)
    with ls listen(1) show ?thesis by blast
  qed
  then have notr: "EvServerClose \<notin> set tr" by blast
  have run: "runServe env =
           (case wait_signal [Interrupt, SIGTERM] (signals env) of
              NoSignal \<Rightarrow>
                \<lparr>trace = tr @ [EvSignalNotify [Interrupt, SIGTERM]], outcome = Blocked,
                 server_of = Some s\<rparr>
            | ProcessExit sig \<Rightarrow>
                \<lparr>trace = tr @ [EvSignalNotify [Interrupt, SIGTERM], EvProcessExit sig],
                 outcome = Exited sig, server_of = Some s\<rparr>
            | Received sig \<Rightarrow>
                \<lparr>trace = tr @ [EvSignalNotify [Interrupt, SIGTERM], EvSignalRecv sig,
                          EvLogInfo ''Received stop signal'' (Some sig), EvServerClose, EvLoggerSync],
                 outcome = Returned (Close env (srv_listeners s)),
                 server_of = Some (server_Close s)\<rparr>)"
    by (simp add: runServe_wait [OF assms] wait_and_close_cases split: wait_result.splits)
  have returned: "(\<exists>r. outcome (runServe env) = Returned r) \<longleftrightarrow>
      (\<exists>sig. wait_signal [Interrupt, SIGTERM] (signals env) = Received sig)"
    unfolding run by (cases "wait_signal [Interrupt, SIGTERM] (signals env)") simp_all
  have blocked: "outcome (runServe env) = Blocked \<longleftrightarrow>
      wait_signal [Interrupt, SIGTERM] (signals env) = NoSignal"
    unfolding run by (cases "wait_signal [Interrupt, SIGTERM] (signals env)") simp_all
  have closed: "EvServerClose \<in> set (trace (runServe env)) \<longleftrightarrow>
      (\<exists>sig. wait_signal [Interrupt, SIGTERM] (signals env) = Received sig)"
    unfolding run using notr
    by (cases "wait_signal [Interrupt, SIGTERM] (signals env)") simp_all
  have 2: "(\<exists>r. outcome (runServe env) = Returned r) \<longleftrightarrow>
              (\<exists>pre sig post. signals env = pre @ sig # post
                 \<and> (\<forall>x\<in>set pre. \<exists>n. x = OtherIgnored n)
                 \<and> (sig = Interrupt \<or> sig = SIGTERM))"
    unfolding returned wait_signal_Received_iff by blast
  have 3: "outcome (runServe env) = Blocked \<longleftrightarrow>
              (\<forall>x\<in>set (signals env). \<exists>n. x = OtherIgnored n)"
    unfolding blocked wait_signal_NoSignal_iff by blast
  have 4: "EvServerClose \<in> set (trace (runServe env)) \<longleftrightarrow>
              (\<exists>r. outcome (runServe env) = Returned r)"
    unfolding closed returned by blast
  have 5: "srv_listeners (server_Close s) = []" by (simp add: server_Close_def)
  from run 2 3 4 5 rest show ?thesis by blast
qed

text \<open>
  C7, witness. The example run is sent an ignored signal, then SIGTERM: it closes the
  server after receiving SIGTERM, the server then accepts on no listener, and the run
  returns the nil result of \<open>Close\<close>. The run that is sent ignored signals only stays
  blocked, and the run that is sent a hangup before SIGTERM ends with the process; neither
  closes the server, which still accepts on both listeners.
\<close>

theorem signal_wait_then_close_witness:
  "trace (runServe example_env) =
     [EvReadConfig, EvLoggerCreate, EvPepper,
      EvListen ''tcp'' ''127.0.0.1:8080'' True, EvLogInfo ''Higuchi listening at 127.0.0.1:8080'' None,
      EvListen ''unix'' ''/run/higuchi.sock'' True, EvLogInfo ''Higuchi listening at /run/higuchi.sock'' None,
      EvSignalNotify [Interrupt, SIGTERM], EvSignalRecv SIGTERM,
      EvLogInfo ''Received stop signal'' (Some SIGTERM), EvServerClose, EvLoggerSync]
   \<and> outcome (runServe example_env) = Returned None
   \<and> map_option srv_listeners (server_of (runServe example_env)) = Some []
   \<and> trace (runServe no_signal_env) =
     [EvReadConfig, EvLoggerCreate, EvPepper,
      EvListen ''tcp'' ''127.0.0.1:8080'' True, EvLogInfo ''Higuchi listening at 127.0.0.1:8080'' None,
      EvListen ''unix'' ''/run/higuchi.sock'' True, EvLogInfo ''Higuchi listening at /run/higuchi.sock'' None,
      EvSignalNotify [Interrupt, SIGTERM]]
   \<and> outcome (runServe no_signal_env) = Blocked
   \<and> map_option srv_listeners (server_of (runServe no_signal_env)) =
       Some [(''tcp'', ''127.0.0.1:8080''), (''unix'', ''/run/higuchi.sock'')]
   \<and> trace (runServe hangup_env) =
     [EvReadConfig, EvLoggerCreate, EvPepper,
      EvListen ''tcp'' ''127.0.0.1:8080'' True, EvLogInfo ''Higuchi listening at 127.0.0.1:8080'' None,
      EvListen ''unix'' ''/run/higuchi.sock'' True, EvLogInfo ''Higuchi listening at /run/higuchi.sock'' None,
      EvSignalNotify [Interrupt, SIGTERM], EvProcessExit (OtherExits 1)]
   \<and> outcome (runServe hangup_env) = Exited (OtherExits 1)
   \<and> map_option srv_listeners (server_of (runServe hangup_env)) =
       Some [(''tcp'', ''127.0.0.1:8080''), (''unix'', ''/run/higuchi.sock'')]"
proof -
  have s1: "signals example_env = [OtherIgnored 28, SIGTERM, Interrupt]"
    and c1: "Close example_env = (\<lambda>bound. None)"
    and s2: "signals no_signal_env = [OtherIgnored 17, OtherIgnored 28]"
    and s3: "signals hangup_env = [OtherIgnored 28, OtherExits 1, SIGTERM]"
    by (simp_all add: example_env_def no_signal_env_def hangup_env_def)
  from signal_wait_then_close [OF startup_example_env] signal_wait_then_close [OF startup_no_signal_env]
    signal_wait_then_close [OF startup_hangup_env]
  show ?thesis by (simp add: s1 s2 s3 c1 server_Close_def)
qed

text \<open>
  C8, as the claim states it, fails: with the Forwarded filter enabled the newer version
  puts a Forwarded filter at the head of the nested chain and the older version has none;
  with the health-check filter enabled the newer version puts a HealthCheck filter before
  Parse and the older version has none.
\<close>

theorem versions_differ_counterexample:
  "map filter_kind_of (worker_filters
      (worker_factory_old (example_config\<lparr>Filters_Forwarded_Enabled := True\<rparr>)
         (Map.empty :: string \<rightharpoonup> nat iface) (authCompare (\<lambda>d p. 0)) 0))
     = [Parse [Tunnel, Forward]]
   \<and> map filter_kind_of (worker_filters
      (worker_factory (example_config\<lparr>Filters_Forwarded_Enabled := True\<rparr>)
         (Map.empty :: string \<rightharpoonup> nat iface) (authCompare (\<lambda>d p. 0))
         (certbotConfig_of (example_config\<lparr>Filters_Forwarded_Enabled := True\<rparr>)) 0))
     = [Parse [Forwarded, Tunnel, Forward]]
   \<and> map filter_kind_of (worker_filters
      (worker_factory_old (example_config\<lparr>Filters_Healthcheck_Enabled := True\<rparr>)
         (Map.empty :: string \<rightharpoonup> nat iface) (authCompare (\<lambda>d p. 0)) 0))
     = [Parse [Tunnel, Forward]]
   \<and> map filter_kind_of (worker_filters
      (worker_factory (example_config\<lparr>Filters_Healthcheck_Enabled := True\<rparr>)
         (Map.empty :: string \<rightharpoonup> nat iface) (authCompare (\<lambda>d p. 0))
         (certbotConfig_of (example_config\<lparr>Filters_Healthcheck_Enabled := True\<rparr>)) 0))
     = [HealthCheck, Parse [Tunnel, Forward]]"
  by (simp add: worker_filters_factory http_filters_eq worker_factory_old_def example_config_def)

text \<open>
  C8, amended. For every configuration, credential table, comparison function and
  worker number, the worker of the older version and the worker of the newer version
  have the same sequence of filter kinds (the nested chain included) exactly when the
  Forwarded filter and the health-check filter are both disabled.
\<close>

theorem versions_agree_iff:
  "map filter_kind_of (worker_filters (worker_factory_old cfg users cmp num)) =
   map filter_kind_of (worker_filters (worker_factory cfg users cmp (certbotConfig_of cfg) num))
   \<longleftrightarrow> \<not> Filters_Forwarded_Enabled cfg \<and> \<not> Filters_Healthcheck_Enabled cfg"
  by (simp add: worker_filters_factory http_filters_eq worker_factory_old_def)

text \<open>
  C9. The pepper is decoded before the Auth enable flag is looked at: whenever the
  configuration is read and decoding the pepper fails, \<open>runServe\<close> returns "error while
  decoding pepper: ..." straight after, whether the Auth filter is enabled or not; it
  reads no passwords file and builds no server.
\<close>

theorem pepper_failure_aborts:
  assumes "ReadConfig env = Inr cfg" and "Pepper env cfg = Inl err"
  shows "runServe env =
           \<lparr>trace = [EvReadConfig, EvLoggerCreate, EvPepper, EvLoggerSync],
            outcome = Returned (Some (Errorf ''error while decoding pepper: '' err)),
            server_of = None\<rparr>"
  by (simp add: runServe_error [OF startup_pepper_err [OF assms]])

text \<open>
  C9, witness: the Auth filter is disabled, the pepper does not decode, and the run
  returns the pepper error.
\<close>

theorem pepper_failure_aborts_witness:
  "\<not> Filters_Auth_Enabled example_config
   \<and> ReadConfig pepper_failure_env = Inr example_config
   \<and> Pepper pepper_failure_env example_config = Inl (Error ''illegal base64 data at input byte 0'')
   \<and> runServe pepper_failure_env =
       \<lparr>trace = [EvReadConfig, EvLoggerCreate, EvPepper, EvLoggerSync],
        outcome = Returned (Some (Error
          ''error while decoding pepper: illegal base64 data at input byte 0'')),
        server_of = None\<rparr>"
proof -
  have c: "ReadConfig pepper_failure_env = Inr example_config"
    and p: "Pepper pepper_failure_env example_config = Inl (Error ''illegal base64 data at input byte 0'')"
    by (simp_all add: pepper_failure_env_def example_env_def)
  from pepper_failure_aborts [OF c p] c p show ?thesis
    by (simp add: example_config_fields)
qed

text \<open>
  C10. For every configuration in which the Auth filter is disabled: the run is the same
  whatever reading the passwords file would answer, no event of the run reads the
  passwords file, the credential table is empty, the pool of the server is built over the
  empty table, and the nested chain of every worker holds no Auth filter.
\<close>

theorem auth_disabled_ignores_passwords_file:
  assumes "ReadConfig env = Inr cfg" and "\<not> Filters_Auth_Enabled cfg"
  shows "(\<forall>f. runServe (env\<lparr>ReadPasswordsFile := f\<rparr>) = runServe env)
         \<and> (\<forall>path. EvReadPasswordsFile path \<notin> set (trace (runServe env)))
         \<and> (\<forall>pepper. load_users env cfg pepper = ([], Inr Map.empty))
         \<and> (\<forall>s. server_of (runServe env) = Some s \<longrightarrow>
               srv_Pool s = NewPreallocatedPool
                 (worker_factory cfg Map.empty (authCompare (Argon2Digest_Compare env)) (certbotConfig_of cfg))
                 1024)
         \<and> (\<forall>users cmp cc num.
               Auth \<notin> set (map http_kind_of (http_filters cfg users cmp cc))
               \<and> nested_chains (worker_filters (worker_factory cfg users cmp cc num)) =
                   [http_filters cfg users cmp cc])"
proof -
  have 1: "\<forall>f. runServe (env\<lparr>ReadPasswordsFile := f\<rparr>) = runServe env"
    by (simp add: runServe_def startup_passwords_irrelevant [OF assms]
          wait_and_close_passwords_irrelevant split: prod.splits option.splits)
  have 3: "\<forall>pepper. load_users env cfg pepper = ([], Inr Map.empty)"
    using assms(2) by (simp add: load_users_disabled)
  have 24: "(\<forall>path. EvReadPasswordsFile path \<notin> set (trace (runServe env)))
         \<and> (\<forall>s. server_of (runServe env) = Some s \<longrightarrow>
               srv_Pool s = NewPreallocatedPool
                 (worker_factory cfg Map.empty (authCompare (Argon2Digest_Compare env)) (certbotConfig_of cfg))
                 1024)"
  proof (cases env rule: startup_cases)
    case (config_err err)
    with assms show ?thesis by simp
  next
    case (pepper_err cfg' err)
    then show ?thesis by (simp add: runServe_error [OF startup_pepper_err])
  next
    case (users_err cfg' pepper tr_u err)
    with assms 3 show ?thesis by simp
  next
    case (listen cfg' pepper tr_u users tr_l s' r)
    from listen(1) assms have [simp]: "cfg' = cfg" by simp
    from listen(3) 3 have u: "tr_u = []" "users = Map.empty" by simp_all
    note run = runServe_listen [OF listen]
    have pool: "srv_Pool s' = NewPreallocatedPool
                 (worker_factory cfg Map.empty (authCompare (Argon2Digest_Compare env)) (certbotConfig_of cfg))
                 1024"
      using listen_loop_pool [OF listen(4)] u by (simp add: server_New_def)
    note pool' = pool [folded wait_and_close_pool [of env s']]
    have ev: "EvReadPasswordsFile path \<notin> set tr_l" for path
      using listen_loop_events [OF listen(4)] by fastforce
    have ev2: "EvReadPasswordsFile path \<notin> set (fst (wait_and_close env s'))" for path
      by (simp add: wait_and_close_cases split: wait_result.splits)
    show ?thesis using run pool pool' ev ev2 u by (cases r) simp_all
  qed
  have 5: "\<forall>users cmp cc num.
               Auth \<notin> set (map http_kind_of (http_filters cfg users cmp cc))
               \<and> nested_chains (worker_filters (worker_factory cfg users cmp cc num)) =
                   [http_filters cfg users cmp cc]"
    using assms(2) by (auto simp: http_filters_eq worker_filters_factory)
  from 1 3 24 5 show ?thesis by blast
qed

text \<open>
  C10, witness: the Auth filter is disabled and the passwords file is unreadable; the run
  is the one of a readable file, never reads the file, and ends with the nil result of
  \<open>Close\<close>.
\<close>

theorem auth_disabled_ignores_passwords_file_witness:
  "ReadConfig no_passwords_env = Inr example_config
   \<and> \<not> Filters_Auth_Enabled example_config
   \<and> ReadPasswordsFile no_passwords_env ''pepper'' ''passwords''
       = Inl (Error ''open passwords: no such file or directory'')
   \<and> runServe (no_passwords_env\<lparr>ReadPasswordsFile := ReadPasswordsFile example_env\<rparr>)
       = runServe no_passwords_env
   \<and> EvReadPasswordsFile ''passwords'' \<notin> set (trace (runServe no_passwords_env))
   \<and> load_users no_passwords_env example_config ''pepper'' = ([], Inr Map.empty)
   \<and> outcome (runServe no_passwords_env) = Returned None"
proof -
  have c: "ReadConfig no_passwords_env = Inr example_config"
    and f: "ReadPasswordsFile no_passwords_env ''pepper'' ''passwords''
       = Inl (Error ''open passwords: no such file or directory'')"
    by (simp_all add: no_passwords_env_def example_env_def)
  have d: "\<not> Filters_Auth_Enabled example_config" by (simp add: example_config_fields)
  have o: "outcome (runServe no_passwords_env) = Returned None"
    by (simp add: runServe_wait [OF startup_no_passwords_env] wait_and_close_cases)
       (simp add: no_passwords_env_def example_env_def)
  from auth_disabled_ignores_passwords_file [OF c d] c d f o show ?thesis by blast
qed

end
